theory Spec2Isabelle
  imports Complex_Main
begin

section \<open>JavaScript numbers\<close>

text \<open>
  The ledger code computes with the JavaScript \<^verbatim>\<open>number\<close> type, the IEEE 754 binary64
  format. A finite number is modelled by the real it denotes, \<open>Fin v\<close>, and the three
  special values are kept apart. Every arithmetic operation computes the exact result and
  rounds it to the nearest number of the format, ties to the even significand, or to an
  infinity when the rounded result does not fit (\<open>fl\<close>).

  The two zeros of the format are one value here. The code modelled below tells them
  apart nowhere: it compares with \<^verbatim>\<open><=\<close>, \<^verbatim>\<open>===\<close> and truthiness, for which they are
  equal, it never divides by a zero, and \<^verbatim>\<open>JSON.stringify\<close> writes both as \<^verbatim>\<open>0\<close>.
\<close>

datatype jsnum = Fin real | PInf | NInf | NaN

text \<open>The infinity with the sign of \<open>s\<close>.\<close>

definition inf_of_sign :: "real \<Rightarrow> jsnum" where
  "inf_of_sign s = (if 0 \<le> s then PInf else NInf)"

text \<open>
  \<open>expo n x\<close> is \<open>\<lfloor>log\<^sub>2 x\<rfloor>\<close> for a positive \<open>x\<close>, found by doubling or halving \<open>x\<close> at most
  \<open>n\<close> times until it lies in \<open>[1, 2)\<close>.
\<close>

fun expo :: "nat \<Rightarrow> real \<Rightarrow> int" where
  "expo 0 x = 0"
| "expo (Suc n) x =
     (if x < 1 then expo n (2 * x) - 1 else if 2 \<le> x then expo n (x / 2) + 1 else 0)"

text \<open>The nearest integer, a tie going to the even one.\<close>

definition round_even :: "real \<Rightarrow> int" where
  "round_even x =
     (let f = \<lfloor>x\<rfloor>; d = x - of_int f
      in if d < 1 / 2 then f else if 1 / 2 < d then f + 1 else if even f then f else f + 1)"

text \<open>
  Rounding of a real to binary64: 53 significant bits, the exponent of the leading bit
  between \<open>-1022\<close> and \<open>1023\<close>, smaller numbers on the fixed grid of the subnormals, and
  an infinity when the rounded value reaches \<open>2\<^sup>1\<^sup>0\<^sup>2\<^sup>4\<close>. The fuel \<open>2200\<close> is more than the
  search for the exponent needs: beyond it the result is an infinity or falls on the
  subnormal grid whatever exponent is found.
\<close>

definition fl :: "real \<Rightarrow> jsnum" where
  "fl r =
     (if r = 0 then Fin 0
      else
        (let e = max (expo 2200 \<bar>r\<bar>) (- 1022);
             q = 2 powi (e - 52);
             m = round_even (r / q)
         in if 2 powi 1024 \<le> \<bar>of_int m\<bar> * q then inf_of_sign r else Fin (of_int m * q)))"


fun js_neg :: "jsnum \<Rightarrow> jsnum" where
  "js_neg (Fin a) = Fin (- a)"
| "js_neg PInf = NInf"
| "js_neg NInf = PInf"
| "js_neg NaN = NaN"

fun js_add :: "jsnum \<Rightarrow> jsnum \<Rightarrow> jsnum" where
  "js_add NaN _ = NaN"
| "js_add _ NaN = NaN"
| "js_add (Fin a) (Fin b) = fl (a + b)"
| "js_add PInf NInf = NaN"
| "js_add NInf PInf = NaN"
| "js_add PInf _ = PInf"
| "js_add _ PInf = PInf"
| "js_add NInf _ = NInf"
| "js_add _ NInf = NInf"

fun js_sub :: "jsnum \<Rightarrow> jsnum \<Rightarrow> jsnum" where
  "js_sub NaN _ = NaN"
| "js_sub _ NaN = NaN"
| "js_sub (Fin a) (Fin b) = fl (a - b)"
| "js_sub PInf PInf = NaN"
| "js_sub NInf NInf = NaN"
| "js_sub PInf _ = PInf"
| "js_sub _ NInf = PInf"
| "js_sub NInf _ = NInf"
| "js_sub _ PInf = NInf"

fun js_mul :: "jsnum \<Rightarrow> jsnum \<Rightarrow> jsnum" where
  "js_mul NaN _ = NaN"
| "js_mul _ NaN = NaN"
| "js_mul (Fin a) (Fin b) = fl (a * b)"
| "js_mul (Fin a) PInf = (if a = 0 then NaN else inf_of_sign a)"
| "js_mul (Fin a) NInf = (if a = 0 then NaN else inf_of_sign (- a))"
| "js_mul PInf (Fin b) = (if b = 0 then NaN else inf_of_sign b)"
| "js_mul NInf (Fin b) = (if b = 0 then NaN else inf_of_sign (- b))"
| "js_mul PInf PInf = PInf"
| "js_mul NInf NInf = PInf"
| "js_mul PInf NInf = NInf"
| "js_mul NInf PInf = NInf"

text \<open>
  Division. A zero divisor is taken as \<^verbatim>\<open>+0\<close>; no function below divides by a zero
  (\<^verbatim>\<open>convertAmount\<close> returns before it would, and the other divisor is \<^verbatim>\<open>100\<close>).
\<close>

fun js_div :: "jsnum \<Rightarrow> jsnum \<Rightarrow> jsnum" where
  "js_div NaN _ = NaN"
| "js_div _ NaN = NaN"
| "js_div (Fin a) (Fin b) =
     (if b = 0 then (if a = 0 then NaN else inf_of_sign a) else fl (a / b))"
| "js_div (Fin a) PInf = Fin 0"
| "js_div (Fin a) NInf = Fin 0"
| "js_div PInf (Fin b) = inf_of_sign b"
| "js_div NInf (Fin b) = inf_of_sign (- b)"
| "js_div PInf PInf = NaN"
| "js_div PInf NInf = NaN"
| "js_div NInf PInf = NaN"
| "js_div NInf NInf = NaN"

text \<open>\<^verbatim>\<open>a <= b\<close>: every comparison with \<^verbatim>\<open>NaN\<close> is false.\<close>

fun js_le :: "jsnum \<Rightarrow> jsnum \<Rightarrow> bool" where
  "js_le NaN _ = False"
| "js_le _ NaN = False"
| "js_le (Fin a) (Fin b) = (a \<le> b)"
| "js_le NInf _ = True"
| "js_le _ PInf = True"
| "js_le PInf _ = False"
| "js_le _ NInf = False"

text \<open>\<^verbatim>\<open>a === b\<close> on numbers: \<^verbatim>\<open>NaN\<close> equals nothing, itself included.\<close>

definition js_strict_eq :: "jsnum \<Rightarrow> jsnum \<Rightarrow> bool" where
  "js_strict_eq a b = (a \<noteq> NaN \<and> a = b)"

definition isNaN :: "jsnum \<Rightarrow> bool" where
  "isNaN v = (v = NaN)"

text \<open>Truthiness of a number, as \<^verbatim>\<open>!rate\<close> tests it: \<^verbatim>\<open>0\<close> and \<^verbatim>\<open>NaN\<close> are falsy.\<close>

fun js_truthy :: "jsnum \<Rightarrow> bool" where
  "js_truthy (Fin a) = (a \<noteq> 0)"
| "js_truthy NaN = False"
| "js_truthy _ = True"

fun isFinite :: "jsnum \<Rightarrow> bool" where
  "isFinite (Fin a) = True"
| "isFinite _ = False"

text \<open>
  \<^verbatim>\<open>Math.round\<close>: the integer nearest to the exact value of the argument, a tie going
  towards \<open>+\<infinity>\<close>. For a number of the format that integer is a number of the format.
\<close>

fun Math_round :: "jsnum \<Rightarrow> jsnum" where
  "Math_round (Fin a) = Fin (of_int \<lfloor>a + 1 / 2\<rfloor>)"
| "Math_round v = v"

text \<open>
  The expression \<^verbatim>\<open>Math.round(v * 100) / 100\<close>, which the posting primitive and the
  expense editor both write inline: a rounded product, the nearest integer, a rounded
  quotient.
\<close>

definition round2 :: "jsnum \<Rightarrow> jsnum" where
  "round2 v = js_div (Math_round (js_mul v (Fin 100))) (Fin 100)"

section \<open>The account store\<close>

text \<open>
  The tables of the store, reduced to the columns the ledger code reads or writes.
  A row of \<^verbatim>\<open>accounts\<close> has the shape of the \<^verbatim>\<open>Account\<close> interface; the rows of
  \<^verbatim>\<open>account_balance_history\<close> and \<^verbatim>\<open>account_transfers\<close> are the insert payloads.
  The balance columns \<^verbatim>\<open>accounts.current_balance\<close> and
  \<^verbatim>\<open>account_balance_history.balance\<close> have the type \<^verbatim>\<open>numeric(12,2)\<close>: the store converts a
  number it is handed to that type, and a later read returns the converted number. The
  conversion belongs to the store, not to the code; it is the field \<open>balance_column\<close> of
  the store, and a statement below holds whatever that function is unless it says what it
  assumes of it.
\<close>

datatype account_type = bank_account | credit_card

datatype account_status = status_active | status_closed

datatype operation = Add | Remove

record account =
  acc_id :: string
  account_name :: string
  account_type :: account_type
  currency :: string
  current_balance :: jsnum
  status :: account_status

text \<open>\<open>balance_date = None\<close>: the column is left to its default, the current date.\<close>

record balance_entry =
  account_id :: string
  user_id :: string
  balance_date :: "string option"
  balance :: jsnum
  entry_note :: "string option"

record transfer =
  tr_user_id :: string
  from_account_id :: string
  to_account_id :: string
  amount :: jsnum
  tr_currency :: string
  tr_note :: "string option"
  transfer_date :: string

record expense =
  exp_id :: string
  exp_user_id :: string
  exp_amount :: jsnum
  category :: string
  vendor :: "string option"
  exp_account_id :: "string option"

text \<open>
  The store keeps, beside its tables, the writes it has applied, oldest first, each with
  the payload as the code sent it. The tables alone do not show in which order writes to
  different tables arrived.
\<close>

datatype db_write =
    UpdateBalance string jsnum
  | UpdateAccount string account
  | InsertAccount account
  | InsertHistory "balance_entry list"
  | InsertTransfer transfer
  | InsertExpense expense
  | DeleteExpense string

record db =
  accounts :: "account list"
  account_balance_history :: "balance_entry list"
  account_transfers :: "transfer list"
  expenses :: "expense list"
  balance_column :: "jsnum \<Rightarrow> jsnum"
  journal :: "db_write list"

text \<open>
  Every call to the store resolves to a result object whose \<^verbatim>\<open>error\<close> is either null or
  carries a message; the call does not throw. The error of each call is an input of the
  model (\<open>None\<close>: the call succeeded), and a call that reports an error changes nothing.
\<close>

type_synonym db_error = "string option"

text \<open>\<^verbatim>\<open>from("accounts").select("current_balance").eq("id", i).single()\<close>: exactly one row.\<close>

definition select_current_balance :: "db \<Rightarrow> string \<Rightarrow> jsnum option" where
  "select_current_balance d i =
     (case filter (\<lambda>a. acc_id a = i) (accounts d) of
        [a] \<Rightarrow> Some (current_balance a)
      | _ \<Rightarrow> None)"

text \<open>\<^verbatim>\<open>from("accounts").update({ current_balance: b }).eq("id", i)\<close>\<close>

definition update_current_balance :: "db_error \<Rightarrow> string \<Rightarrow> jsnum \<Rightarrow> db \<Rightarrow> db" where
  "update_current_balance err i b d =
     (case err of
        Some msg \<Rightarrow> d
      | None \<Rightarrow>
          d\<lparr>accounts := map (\<lambda>a. if acc_id a = i
                                 then a\<lparr>current_balance := balance_column d b\<rparr>
                                 else a) (accounts d),
            journal := journal d @ [UpdateBalance i b]\<rparr>)"

text \<open>\<^verbatim>\<open>from("account_balance_history").insert(rows)\<close>\<close>

definition insert_history :: "db_error \<Rightarrow> balance_entry list \<Rightarrow> db \<Rightarrow> db" where
  "insert_history err rows d =
     (case err of
        Some msg \<Rightarrow> d
      | None \<Rightarrow>
          d\<lparr>account_balance_history :=
              account_balance_history d
              @ map (\<lambda>e. e\<lparr>balance := balance_column d (balance e)\<rparr>) rows,
            journal := journal d @ [InsertHistory rows]\<rparr>)"

text \<open>\<^verbatim>\<open>from("account_transfers").insert(row)\<close>\<close>

definition insert_transfer :: "db_error \<Rightarrow> transfer \<Rightarrow> db \<Rightarrow> db" where
  "insert_transfer err row d =
     (case err of
        Some msg \<Rightarrow> d
      | None \<Rightarrow>
          d\<lparr>account_transfers := account_transfers d @ [row],
            journal := journal d @ [InsertTransfer row]\<rparr>)"

text \<open>\<^verbatim>\<open>s || dflt\<close> on an optional string: the empty string is falsy.\<close>

definition or_string :: "string option \<Rightarrow> string \<Rightarrow> string" where
  "or_string s dflt = (case s of None \<Rightarrow> dflt | Some t \<Rightarrow> if t = [] then dflt else t)"

text \<open>\<^verbatim>\<open>s || null\<close>\<close>

definition or_null :: "string \<Rightarrow> string option" where
  "or_null s = (if s = [] then None else Some s)"

text \<open>What a handler shows to the user when it returns.\<close>

datatype toast = toast_error string | toast_success string

section \<open>The balance posting primitive\<close>

text \<open>
  \<^verbatim>\<open>updateAccountBalance\<close>. The three calls to the store may each fail: \<open>fetch_error\<close> for
  the read of the current balance, \<open>update_error\<close> and \<open>history_error\<close> for the two
  writes, which the code issues together and whose results it does not inspect. The
  function returns nothing; the model returns the store it leaves behind.
\<close>

record posting_faults =
  fetch_error :: db_error
  update_error :: db_error
  history_error :: db_error

definition posting_delta :: "account_type \<Rightarrow> operation \<Rightarrow> jsnum \<Rightarrow> jsnum" where
  "posting_delta accountType operation amnt =
     (if accountType = credit_card
      then (if operation = Add then amnt else js_neg amnt)
      else (if operation = Add then js_neg amnt else amnt))"

definition updateAccountBalance ::
  "posting_faults \<Rightarrow> db \<Rightarrow> string \<Rightarrow> string \<Rightarrow> jsnum \<Rightarrow> account_type \<Rightarrow> operation \<Rightarrow>
   string option \<Rightarrow> db" where
  "updateAccountBalance env d accountId userId amnt accountType operation nte =
     (case (if fetch_error env = None then select_current_balance d accountId else None) of
        None \<Rightarrow> d
      | Some current \<Rightarrow>
          (let delta = posting_delta accountType operation amnt;
               newBalance = round2 (js_add current delta)
           in insert_history (history_error env)
                [\<lparr>account_id = accountId, user_id = userId, balance_date = None,
                  balance = newBalance,
                  entry_note = Some (or_string nte
                    (''Expense '' @ (if operation = Add then ''created'' else ''removed'')))\<rparr>]
                (update_current_balance (update_error env) accountId newBalance d)))"

section \<open>The transfer orchestrator\<close>

text \<open>
  \<^verbatim>\<open>handleTransfer\<close> of the accounts table. Its inputs are the fields of the transfer
  dialog, the accounts the page holds (\<open>accs\<close>, the React state) and the store.
  \<open>transferAmount\<close> stands for \<^verbatim>\<open>Number(transferAmount)\<close>, the number the text of the
  amount field converts to; \<open>now_date\<close> for the current date; \<open>formatCurrency\<close> for the
  formatting helper of the same name.
\<close>

record transfer_form =
  transferFromId :: string
  transferToId :: string
  transferAmount :: jsnum
  transferNote :: string
  transferDate :: string

record transfer_faults =
  fromErr :: db_error
  toErr :: db_error
  historyErr :: db_error
  transferErr :: db_error

definition newFromBalance :: "account \<Rightarrow> jsnum \<Rightarrow> jsnum" where
  "newFromBalance from amnt = js_sub (current_balance from) amnt"

definition newToBalance :: "account \<Rightarrow> jsnum \<Rightarrow> jsnum" where
  "newToBalance to amnt =
     (if account_type to = credit_card
      then js_sub (current_balance to) amnt
      else js_add (current_balance to) amnt)"

definition historyNote :: "string \<Rightarrow> account \<Rightarrow> string" where
  "historyNote tnote to =
     (if tnote \<noteq> [] then ''Transfer: '' @ tnote
      else ''Transfer '' @ (if account_type to = credit_card then ''payment to'' else ''to'')
             @ '' '' @ account_name to)"

definition historyNoteReverse :: "string \<Rightarrow> account \<Rightarrow> string" where
  "historyNoteReverse tnote from =
     (if tnote \<noteq> [] then ''Transfer: '' @ tnote
      else ''Transfer from '' @ account_name from)"

definition handleTransfer ::
  "transfer_faults \<Rightarrow> (jsnum \<Rightarrow> string \<Rightarrow> string) \<Rightarrow> string \<Rightarrow> string \<Rightarrow> transfer_form \<Rightarrow>
   account list \<Rightarrow> db \<Rightarrow> toast option \<times> account list \<times> db" where
  "handleTransfer env formatCurrency userId now_date f accs d =
     (if transferFromId f = [] \<or> transferToId f = []
      then (Some (toast_error ''Select both accounts''), accs, d)
      else if transferFromId f = transferToId f
      then (Some (toast_error ''Cannot transfer to the same account''), accs, d)
      else
        (let amnt = transferAmount f in
         if isNaN amnt \<or> js_le amnt (Fin 0)
         then (Some (toast_error ''Enter a valid amount greater than 0''), accs, d)
         else
           (case (find (\<lambda>a. acc_id a = transferFromId f) accs,
                  find (\<lambda>a. acc_id a = transferToId f) accs) of
              (Some from, Some to) \<Rightarrow>
                if currency from \<noteq> currency to
                then (Some (toast_error ''Cannot transfer between different currencies''), accs, d)
                else
                  (let today = (if transferDate f \<noteq> [] then transferDate f else now_date) in
                   case fromErr env of
                     Some msg \<Rightarrow>
                       (Some (toast_error (''Failed to update source account: '' @ msg)), accs, d)
                   | None \<Rightarrow>
                       (let d1 = update_current_balance None (acc_id from)
                                   (newFromBalance from amnt) d in
                        case toErr env of
                          Some msg \<Rightarrow>
                            (Some (toast_error (''Failed to update target account: '' @ msg)),
                             accs, d1)
                        | None \<Rightarrow>
                            (let d2 = update_current_balance None (acc_id to)
                                        (newToBalance to amnt) d1;
                                 d3 = insert_history (historyErr env)
                                        [\<lparr>account_id = acc_id from, user_id = userId,
                                          balance_date = Some today,
                                          balance = newFromBalance from amnt,
                                          entry_note = Some (historyNote (transferNote f) to)\<rparr>,
                                         \<lparr>account_id = acc_id to, user_id = userId,
                                          balance_date = Some today,
                                          balance = newToBalance to amnt,
                                          entry_note =
                                            Some (historyNoteReverse (transferNote f) from)\<rparr>]
                                        d2;
                                 d4 = insert_transfer (transferErr env)
                                        \<lparr>tr_user_id = userId, from_account_id = acc_id from,
                                         to_account_id = acc_id to, amount = amnt,
                                         tr_currency = currency from,
                                         tr_note = or_null (transferNote f),
                                         transfer_date = today\<rparr>
                                        d3
                             in (Some (toast_success
                                   (''Transferred '' @ formatCurrency amnt (currency from)
                                    @ '' from '' @ account_name from
                                    @ '' to '' @ account_name to)),
                                 map (\<lambda>a. if acc_id a = acc_id from
                                          then a\<lparr>current_balance := newFromBalance from amnt\<rparr>
                                          else if acc_id a = acc_id to
                                          then a\<lparr>current_balance := newToBalance to amnt\<rparr>
                                          else a) accs,
                                 d4))))
            | _ \<Rightarrow> (None, accs, d))))"

section \<open>Manual balance correction\<close>

text \<open>
  \<^verbatim>\<open>handleBalanceUpdate\<close> of the account page. \<open>newBalance\<close> stands for
  \<^verbatim>\<open>Number(newBalance)\<close>; \<open>acct\<close> and \<open>hist\<close> are the account and the history list the
  page holds. The row the history insert returns is taken to be the row inserted.
\<close>

definition handleBalanceUpdate ::
  "db_error \<Rightarrow> db_error \<Rightarrow> string \<Rightarrow> string \<Rightarrow> jsnum \<Rightarrow> string \<Rightarrow> account \<Rightarrow>
   balance_entry list \<Rightarrow> db \<Rightarrow> toast option \<times> account \<times> balance_entry list \<times> db" where
  "handleBalanceUpdate updateError historyError userId today newBalance balanceNote acct hist d =
     (if isNaN newBalance
      then (Some (toast_error ''Enter a valid balance''), acct, hist, d)
      else
        (case updateError of
           Some msg \<Rightarrow> (Some (toast_error (''Failed to update balance: '' @ msg)), acct, hist, d)
         | None \<Rightarrow>
             (let d1 = update_current_balance None (acc_id acct) newBalance d;
                  newEntry = \<lparr>account_id = acc_id acct, user_id = userId,
                              balance_date = Some today, balance = newBalance,
                              entry_note = or_null balanceNote\<rparr>;
                  d2 = insert_history historyError [newEntry] d1
              in case historyError of
                   Some msg \<Rightarrow>
                     (Some (toast_error (''Balance updated but history failed: '' @ msg)),
                      acct\<lparr>current_balance := newBalance\<rparr>, hist, d2)
                 | None \<Rightarrow>
                     (Some (toast_success ''Balance updated''),
                      acct\<lparr>current_balance := newBalance\<rparr>, newEntry # hist, d2))))"

section \<open>The account form\<close>

text \<open>
  \<^verbatim>\<open>onSubmit\<close> of the account form, which creates an account or, given an account,
  edits it. \<open>new_id\<close> is the id the store gives to a created row.
\<close>

record account_form_data =
  f_account_name :: string
  f_account_type :: account_type
  f_currency :: string
  opening_balance :: jsnum
  f_status :: account_status
  opened_date :: string

text \<open>\<^verbatim>\<open>from("accounts").update(payload).eq("id", i)\<close>\<close>

definition update_account :: "db_error \<Rightarrow> string \<Rightarrow> account \<Rightarrow> db \<Rightarrow> db" where
  "update_account err i payload d =
     (case err of
        Some msg \<Rightarrow> d
      | None \<Rightarrow>
          d\<lparr>accounts :=
              map (\<lambda>a. if acc_id a = i
                       then payload\<lparr>acc_id := i,
                                    current_balance := balance_column d (current_balance payload)\<rparr>
                       else a) (accounts d),
            journal := journal d @ [UpdateAccount i payload]\<rparr>)"

text \<open>\<^verbatim>\<open>from("accounts").insert(payload)\<close>\<close>

definition insert_account :: "db_error \<Rightarrow> account \<Rightarrow> db \<Rightarrow> db" where
  "insert_account err row d =
     (case err of
        Some msg \<Rightarrow> d
      | None \<Rightarrow>
          d\<lparr>accounts :=
              accounts d @ [row\<lparr>current_balance := balance_column d (current_balance row)\<rparr>],
            journal := journal d @ [InsertAccount row]\<rparr>)"

definition account_onSubmit ::
  "db_error \<Rightarrow> db_error \<Rightarrow> string \<Rightarrow> string \<Rightarrow> string \<Rightarrow> account option \<Rightarrow>
   account_form_data \<Rightarrow> db \<Rightarrow> toast \<times> db" where
  "account_onSubmit writeError historyError userId today new_id editing dat d =
     (let bal = opening_balance dat;
          payload = \<lparr>acc_id = (case editing of Some a \<Rightarrow> acc_id a | None \<Rightarrow> new_id),
                     account_name = f_account_name dat, account_type = f_account_type dat,
                     currency = f_currency dat, current_balance = bal,
                     status = f_status dat\<rparr>
      in case editing of
           Some a \<Rightarrow>
             (case writeError of
                Some msg \<Rightarrow> (toast_error (''Failed to update account: '' @ msg), d)
              | None \<Rightarrow> (toast_success ''Account updated'', update_account None (acc_id a) payload d))
         | None \<Rightarrow>
             (case writeError of
                Some msg \<Rightarrow> (toast_error (''Failed to create account: '' @ msg), d)
              | None \<Rightarrow>
                  (toast_success ''Account created'',
                   insert_history historyError
                     [\<lparr>account_id = new_id, user_id = userId,
                       balance_date = Some (if opened_date dat \<noteq> [] then opened_date dat else today),
                       balance = bal, entry_note = Some ''Opening balance''\<rparr>]
                     (insert_account None payload d))))"

section \<open>Expense-linked postings\<close>

text \<open>
  The two callers of the posting primitive in the expense screens: \<^verbatim>\<open>onSubmit\<close> of the
  new-expense dialog, from the insert of the expense on (the upload of a receipt comes
  before and is left out), and \<^verbatim>\<open>handleDelete\<close> of the expense table. \<open>accs\<close> and \<open>exps\<close>
  are the accounts and expenses the page holds.
\<close>

record expense_form_data =
  d_amount :: jsnum
  d_category :: string
  d_vendor :: string
  d_account_id :: string

text \<open>\<^verbatim>\<open>from("expenses").insert(row)\<close> and \<^verbatim>\<open>from("expenses").delete().eq("id", i)\<close>\<close>

definition insert_expense :: "db_error \<Rightarrow> expense \<Rightarrow> db \<Rightarrow> db" where
  "insert_expense err row d =
     (case err of
        Some msg \<Rightarrow> d
      | None \<Rightarrow> d\<lparr>expenses := expenses d @ [row], journal := journal d @ [InsertExpense row]\<rparr>)"

definition delete_expense :: "db_error \<Rightarrow> string \<Rightarrow> db \<Rightarrow> db" where
  "delete_expense err i d =
     (case err of
        Some msg \<Rightarrow> d
      | None \<Rightarrow>
          d\<lparr>expenses := filter (\<lambda>e. exp_id e \<noteq> i) (expenses d),
            journal := journal d @ [DeleteExpense i]\<rparr>)"

text \<open>
  The separator between category and vendor in the note of a created expense, as the
  bytes the source file holds between the two blanks of the template.
\<close>

definition note_separator :: string where
  "note_separator = [CHR 0xC3, CHR 0xA2, CHR 0xE2, CHR 0x82, CHR 0xAC, CHR 0xE2, CHR 0x80, CHR 0x9C]"

definition expense_onSubmit ::
  "db_error \<Rightarrow> posting_faults \<Rightarrow> string \<Rightarrow> string \<Rightarrow> expense_form_data \<Rightarrow> account list \<Rightarrow>
   db \<Rightarrow> toast \<times> db" where
  "expense_onSubmit insertError env userId new_id dat accs d =
     (case insertError of
        Some msg \<Rightarrow> (toast_error (''Failed to create expense: '' @ msg), d)
      | None \<Rightarrow>
          (let d1 = insert_expense None
                      \<lparr>exp_id = new_id, exp_user_id = userId, exp_amount = d_amount dat,
                       category = d_category dat, vendor = or_null (d_vendor dat),
                       exp_account_id = or_null (d_account_id dat)\<rparr> d;
               d2 = (if d_account_id dat \<noteq> []
                     then (case find (\<lambda>a. acc_id a = d_account_id dat) accs of
                             Some acct \<Rightarrow>
                               updateAccountBalance env d1 (acc_id acct) userId (d_amount dat)
                                 (account_type acct) Add
                                 (Some (''Expense: '' @ d_category dat
                                        @ (if d_vendor dat \<noteq> []
                                           then '' '' @ note_separator @ '' '' @ d_vendor dat
                                           else [])))
                           | None \<Rightarrow> d1)
                     else d1)
           in (toast_success ''Expense logged'', d2)))"

definition expense_handleDelete ::
  "db_error \<Rightarrow> posting_faults \<Rightarrow> string \<Rightarrow> expense list \<Rightarrow> account list \<Rightarrow> db \<Rightarrow>
   toast option \<times> expense list \<times> db" where
  "expense_handleDelete deleteError env deleteId exps accs d =
     (if deleteId = [] then (None, exps, d)
      else
        (let expToDelete = find (\<lambda>e. exp_id e = deleteId) exps in
         case deleteError of
           Some msg \<Rightarrow> (Some (toast_error (''Failed to delete expense: '' @ msg)), exps, d)
         | None \<Rightarrow>
             (let d1 = delete_expense None deleteId d;
                  d2 = (case expToDelete of
                          None \<Rightarrow> d1
                        | Some e \<Rightarrow>
                            (case exp_account_id e of
                               None \<Rightarrow> d1
                             | Some aid \<Rightarrow>
                                 if aid = [] then d1
                                 else
                                   (case find (\<lambda>a. acc_id a = aid) accs of
                                      Some acct \<Rightarrow>
                                        updateAccountBalance env d1 (acc_id acct) (exp_user_id e)
                                          (exp_amount e) (account_type acct) Remove
                                          (Some (''Expense deleted: '' @ category e))
                                    | None \<Rightarrow> d1)))
              in (Some (toast_success ''Expense deleted''),
                  filter (\<lambda>e. exp_id e \<noteq> deleteId) exps, d2))))"

section \<open>The exchange-rate cache and currency conversion\<close>

text \<open>
  A rate table is a JavaScript object of type \<^verbatim>\<open>Record<string, number>\<close>. It is modelled
  by its own properties in the order of their creation. Its prototype is
  \<^verbatim>\<open>Object.prototype\<close>, as for every object that \<^verbatim>\<open>{}\<close> or \<^verbatim>\<open>JSON.parse\<close> makes, so that
  reading a name the table does not have itself finds what the prototype has under that
  name.
\<close>

type_synonym rate_table = "(string \<times> jsnum) list"

text \<open>The property names of \<^verbatim>\<open>Object.prototype\<close>; none of them holds a number.\<close>

definition object_prototype_keys :: "string list" where
  "object_prototype_keys =
     [''constructor'', ''__defineGetter__'', ''__defineSetter__'', ''hasOwnProperty'',
      ''__lookupGetter__'', ''__lookupSetter__'', ''isPrototypeOf'', ''propertyIsEnumerable'',
      ''toString'', ''valueOf'', ''__proto__'', ''toLocaleString'']"

text \<open>
  What \<^verbatim>\<open>rates[k]\<close> evaluates to: a number of the table, a function or object inherited
  from the prototype, or \<^verbatim>\<open>undefined\<close>.
\<close>

datatype jsval = Undefined | Number jsnum | Inherited

definition get_rate :: "rate_table \<Rightarrow> string \<Rightarrow> jsval" where
  "get_rate r k =
     (case map_of r k of
        Some v \<Rightarrow> Number v
      | None \<Rightarrow> if k \<in> set object_prototype_keys then Inherited else Undefined)"

text \<open>
  \<^verbatim>\<open>Object.keys\<close> lists the array indices first, in ascending order, and then the other
  names in the order of their creation. An array index is the decimal numeral, without
  a leading zero, of a number below \<open>2\<^sup>3\<^sup>2 - 1\<close>.
\<close>

definition index_value :: "string \<Rightarrow> nat" where
  "index_value k = foldl (\<lambda>n c. 10 * n + (of_char c - 48)) 0 k"

definition is_array_index :: "string \<Rightarrow> bool" where
  "is_array_index k =
     (k \<noteq> [] \<and> list_all (\<lambda>c. 48 \<le> (of_char c :: nat) \<and> (of_char c :: nat) \<le> 57) k
      \<and> (k = ''0'' \<or> hd k \<noteq> CHR ''0'') \<and> index_value k < 4294967295)"

definition Object_keys :: "rate_table \<Rightarrow> string list" where
  "Object_keys r =
     sort_key index_value (filter is_array_index (map fst r))
     @ filter (\<lambda>k. \<not> is_array_index k) (map fst r)"

text \<open>
  \<^verbatim>\<open>r[k] = v\<close> for a number \<open>v\<close>: a property the table has keeps its place and gets the
  value; otherwise the name \<^verbatim>\<open>__proto__\<close> reaches the setter of the prototype, which
  ignores a number, and any other name becomes a new property.
\<close>

definition set_rate :: "rate_table \<Rightarrow> string \<Rightarrow> jsnum \<Rightarrow> rate_table" where
  "set_rate r k v =
     (if k \<in> fst ` set r then map (\<lambda>(k', v'). if k' = k then (k', v) else (k', v')) r
      else if k = ''__proto__'' then r
      else r @ [(k, v)])"

text \<open>
  What the request to the rate provider comes to: \<^verbatim>\<open>fetch\<close> rejects (a transport error),
  or it resolves to a response with its \<^verbatim>\<open>ok\<close> flag, its status and its body. The body
  is not JSON, so that \<^verbatim>\<open>res.json()\<close> rejects, or it is the JSON value \<^verbatim>\<open>null\<close>, so that
  reading \<^verbatim>\<open>data.rates\<close> throws, or it is a value whose \<^verbatim>\<open>rates\<close> property is missing or
  \<^verbatim>\<open>null\<close>, or one whose \<^verbatim>\<open>rates\<close> is a table of numbers, as the return type declares.
\<close>

datatype json_body = BadJson | NullJson | Body "rate_table option"

datatype fetch_outcome = NetworkError | Response bool nat json_body

datatype exn = FetchRejected | JsonRejected | TypeError

definition fetchRates :: "(string \<Rightarrow> fetch_outcome) \<Rightarrow> string \<Rightarrow> exn + rate_table" where
  "fetchRates fetch b =
     (case fetch b of
        NetworkError \<Rightarrow> Inl FetchRejected
      | Response ok st body \<Rightarrow>
          if \<not> ok then Inr []
          else (case body of
                  BadJson \<Rightarrow> Inl JsonRejected
                | NullJson \<Rightarrow> Inl TypeError
                | Body None \<Rightarrow> Inr []
                | Body (Some r) \<Rightarrow> Inr r))"

record RatesCache =
  cache_base :: string
  cache_rates :: rate_table
  fetchedAt :: int

definition CACHE_TTL :: int where
  "CACHE_TTL = 24 * 60 * 60 * 1000"

text \<open>
  \<^verbatim>\<open>getExchangeRates\<close>, with the module variable \<^verbatim>\<open>cache\<close> passed in and returned, and
  \<open>now\<close> for \<^verbatim>\<open>Date.now()\<close>. \<open>Inl\<close> is an exception that leaves the function.
\<close>

definition getExchangeRates ::
  "(string \<Rightarrow> fetch_outcome) \<Rightarrow> int \<Rightarrow> RatesCache option \<Rightarrow> string \<Rightarrow>
   (exn + rate_table) \<times> RatesCache option" where
  "getExchangeRates fetch now cache b =
     (case (case cache of
              Some c \<Rightarrow> if cache_base c = b \<and> now - fetchedAt c < CACHE_TTL then Some c else None
            | None \<Rightarrow> None) of
        Some c \<Rightarrow> (Inr (cache_rates c), cache)
      | None \<Rightarrow>
          (case fetchRates fetch b of
             Inl e \<Rightarrow> (Inl e, cache)
           | Inr r \<Rightarrow>
               (let r' = set_rate r b (Fin 1)
                in (Inr r', Some \<lparr>cache_base = b, cache_rates = r', fetchedAt = now\<rparr>))))"

text \<open>
  \<^verbatim>\<open>Object.keys(rates).find((k) => rates[k] === 1)\<close>: the first key whose rate is 1, which
  \<^verbatim>\<open>convertAmount\<close> takes for the base currency of the table.
\<close>

definition base_key :: "rate_table \<Rightarrow> string option" where
  "base_key r =
     find (\<lambda>k. case get_rate r k of Number v \<Rightarrow> js_strict_eq v (Fin 1) | _ \<Rightarrow> False)
       (Object_keys r)"

text \<open>
  \<^verbatim>\<open>convertAmount\<close>. An inherited function or object is truthy and converts to \<^verbatim>\<open>NaN\<close>
  as a divisor.
\<close>

definition convertAmount :: "jsnum \<Rightarrow> string \<Rightarrow> rate_table \<Rightarrow> jsnum" where
  "convertAmount amnt fromCurrency r =
     (if fromCurrency = [] \<or> Some fromCurrency = base_key r
      then amnt
      else
        (case get_rate r fromCurrency of
           Undefined \<Rightarrow> amnt
         | Number rate \<Rightarrow> if \<not> js_truthy rate then amnt else js_div amnt rate
         | Inherited \<Rightarrow> js_div amnt NaN))"

definition sumConverted :: "(jsnum \<times> string) list \<Rightarrow> rate_table \<Rightarrow> jsnum" where
  "sumConverted items r =
     foldl (\<lambda>sum item. js_add sum (convertAmount (fst item) (snd item) r)) (Fin 0) items"

section \<open>Notions used in the statements\<close>

text \<open>
  The checks \<^verbatim>\<open>handleTransfer\<close> makes before its first write, for the accounts \<open>from\<close> and
  \<open>to\<close> it finds: both ids chosen and different, the amount neither \<^verbatim>\<open>NaN\<close> nor \<open>\<le> 0\<close>,
  both accounts among those the page holds, and the same currency on both.
\<close>

definition passes_checks :: "transfer_form \<Rightarrow> account list \<Rightarrow> account \<Rightarrow> account \<Rightarrow> bool" where
  "passes_checks f accs from to =
     (transferFromId f \<noteq> [] \<and> transferToId f \<noteq> []
      \<and> transferFromId f \<noteq> transferToId f
      \<and> \<not> isNaN (transferAmount f) \<and> \<not> js_le (transferAmount f) (Fin 0)
      \<and> find (\<lambda>a. acc_id a = transferFromId f) accs = Some from
      \<and> find (\<lambda>a. acc_id a = transferToId f) accs = Some to
      \<and> currency from = currency to)"

text \<open>The date, the two history rows and the transfer row that \<^verbatim>\<open>handleTransfer\<close> writes.\<close>

definition transfer_today :: "transfer_form \<Rightarrow> string \<Rightarrow> string" where
  "transfer_today f now_date = (if transferDate f \<noteq> [] then transferDate f else now_date)"

definition transfer_history_rows ::
  "string \<Rightarrow> string \<Rightarrow> transfer_form \<Rightarrow> account \<Rightarrow> account \<Rightarrow> balance_entry list" where
  "transfer_history_rows userId today f from to =
     [\<lparr>account_id = acc_id from, user_id = userId, balance_date = Some today,
       balance = newFromBalance from (transferAmount f),
       entry_note = Some (historyNote (transferNote f) to)\<rparr>,
      \<lparr>account_id = acc_id to, user_id = userId, balance_date = Some today,
       balance = newToBalance to (transferAmount f),
       entry_note = Some (historyNoteReverse (transferNote f) from)\<rparr>]"

definition transfer_row :: "string \<Rightarrow> string \<Rightarrow> transfer_form \<Rightarrow> account \<Rightarrow> account \<Rightarrow> transfer" where
  "transfer_row userId today f from to =
     \<lparr>tr_user_id = userId, from_account_id = acc_id from, to_account_id = acc_id to,
      amount = transferAmount f, tr_currency = currency from,
      tr_note = or_null (transferNote f), transfer_date = today\<rparr>"

text \<open>
  The condition under which \<^verbatim>\<open>getExchangeRates\<close> goes to the provider: nothing cached, or
  cached for another base, or cached 24 hours ago or earlier.
\<close>

definition cache_miss :: "int \<Rightarrow> RatesCache option \<Rightarrow> string \<Rightarrow> bool" where
  "cache_miss now cache b =
     (case cache of
        None \<Rightarrow> True
      | Some c \<Rightarrow> \<not> (cache_base c = b \<and> now - fetchedAt c < CACHE_TTL))"

text \<open>
  The number that the decimal notation of \<open>n\<close> hundredths denotes, in the code and in an
  answer of the store: the number of the format nearest to \<open>n / 100\<close>.
\<close>

definition cents :: "int \<Rightarrow> jsnum" where
  "cents n = fl (of_int n / 100)"

text \<open>
  A balance column that rounds to the cent: a number that is nearer than 0.0049 to a
  whole number of cents within the range of \<^verbatim>\<open>numeric(12,2)\<close>, which is below \<open>10\<^sup>1\<^sup>0\<close> in
  absolute value, is stored and read back as that number of cents.
\<close>

definition rounds_to_cents :: "(jsnum \<Rightarrow> jsnum) \<Rightarrow> bool" where
  "rounds_to_cents col =
     (\<forall>v n. \<bar>100 * v - of_int n\<bar> \<le> 49 / 100 \<and> \<bar>n\<bar> < 10 ^ 12 \<longrightarrow> col (Fin v) = cents n)"

section \<open>Example states\<close>

text \<open>
  The balance column of the example stores, as \<^verbatim>\<open>numeric(12,2)\<close> treats a number below
  \<open>10\<^sup>1\<^sup>0\<close> in absolute value. The client sends a finite number in its shortest decimal
  notation, and the column rounds that decimal to two places, a tie away from zero. So a
  number that the decimal of a half cent denotes goes to the next cent away from zero;
  for every other number no half cent lies between it and its notation, and it goes to
  the nearest whole number of cents. \<^verbatim>\<open>NaN\<close> and the infinities are sent as \<^verbatim>\<open>null\<close>,
  which the code reads back as 0. (The column refuses a number of \<open>10\<^sup>1\<^sup>0\<close> or more: such
  a write is a call that fails.)
\<close>

definition round_away :: "real \<Rightarrow> int" where
  "round_away y = (if 0 \<le> y then \<lfloor>y + 1 / 2\<rfloor> else - \<lfloor>1 / 2 - y\<rfloor>)"

definition cents_column :: "jsnum \<Rightarrow> jsnum" where
  "cents_column v =
     (case v of
        Fin a \<Rightarrow>
          (let k = \<lfloor>100 * a\<rfloor>; t = (of_int k + 1 / 2) / 100
           in if fl t = Fin a then cents (if 0 \<le> a then k + 1 else k)
              else cents (round_away (100 * a)))
      | _ \<Rightarrow> Fin 0)"

text \<open>The numbers that the literals \<^verbatim>\<open>0.005\<close> and \<^verbatim>\<open>0.001\<close> denote.\<close>

definition half_cent :: jsnum where
  "half_cent = fl (5 / 1000)"

definition tenth_cent :: jsnum where
  "tenth_cent = fl (1 / 1000)"

text \<open>A store with one bank account holding 1000.00, and a run in which no call fails.\<close>

definition db0 :: db where
  "db0 = \<lparr>accounts = [\<lparr>acc_id = ''a1'', account_name = ''Main'', account_type = bank_account,
                        currency = ''PHP'', current_balance = Fin 1000, status = status_active\<rparr>],
          account_balance_history = [], account_transfers = [], expenses = [],
          balance_column = cents_column, journal = []\<rparr>"

definition no_faults :: posting_faults where
  "no_faults = \<lparr>fetch_error = None, update_error = None, history_error = None\<rparr>"



text \<open>
  Four accounts in PHP: two active bank accounts, an active credit card and a closed bank
  account; the store \<open>db1\<close> holds them and nothing else, and the page holds the same list.
\<close>

definition acct_checking :: account where
  "acct_checking = \<lparr>acc_id = ''a1'', account_name = ''Checking'', account_type = bank_account,
                     currency = ''PHP'', current_balance = Fin 1000, status = status_active\<rparr>"

definition acct_savings :: account where
  "acct_savings = \<lparr>acc_id = ''a2'', account_name = ''Savings'', account_type = bank_account,
                    currency = ''PHP'', current_balance = Fin 500, status = status_active\<rparr>"

definition acct_card :: account where
  "acct_card = \<lparr>acc_id = ''a3'', account_name = ''Visa'', account_type = credit_card,
                 currency = ''PHP'', current_balance = Fin 200, status = status_active\<rparr>"

definition acct_closed :: account where
  "acct_closed = \<lparr>acc_id = ''a4'', account_name = ''Old'', account_type = bank_account,
                   currency = ''PHP'', current_balance = Fin 300, status = status_closed\<rparr>"

definition accs1 :: "account list" where
  "accs1 = [acct_checking, acct_savings, acct_card, acct_closed]"

definition db1 :: db where
  "db1 = \<lparr>accounts = accs1, account_balance_history = [], account_transfers = [],
          expenses = [], balance_column = cents_column, journal = []\<rparr>"

text \<open>A page that still shows 400.00 for the savings account, which holds 500.00.\<close>

definition accs_stale :: "account list" where
  "accs_stale = [acct_checking, acct_savings\<lparr>current_balance := Fin 400\<rparr>, acct_card, acct_closed]"

text \<open>
  Runs of a transfer: every call succeeds, or the update of the destination fails. The
  form of the dialog for a transfer of \<open>a\<close> from \<open>i\<close> to \<open>j\<close>, and a stand-in for the
  currency formatter.
\<close>

definition transfer_ok :: transfer_faults where
  "transfer_ok = \<lparr>fromErr = None, toErr = None, historyErr = None, transferErr = None\<rparr>"

definition transfer_to_fails :: transfer_faults where
  "transfer_to_fails = \<lparr>fromErr = None, toErr = Some ''timeout'', historyErr = None,
                         transferErr = None\<rparr>"

definition form1 :: "string \<Rightarrow> string \<Rightarrow> jsnum \<Rightarrow> transfer_form" where
  "form1 i j a = \<lparr>transferFromId = i, transferToId = j, transferAmount = a,
                  transferNote = [], transferDate = ''2026-01-15''\<rparr>"

definition fmt :: "jsnum \<Rightarrow> string \<Rightarrow> string" where
  "fmt a c = c"

text \<open>
  An edit of the first account through the account form that changes its balance, an
  expense linked to the first account, and a posting whose read of the account fails.
\<close>

definition edit_data :: account_form_data where
  "edit_data = \<lparr>f_account_name = ''Checking'', f_account_type = bank_account,
                 f_currency = ''PHP'', opening_balance = Fin 1234, f_status = status_active,
                 opened_date = []\<rparr>"

definition expense1 :: expense_form_data where
  "expense1 = \<lparr>d_amount = Fin 1500, d_category = ''software'', d_vendor = [],
                d_account_id = ''a1''\<rparr>"

definition fetch_fails :: posting_faults where
  "fetch_fails = \<lparr>fetch_error = Some ''timeout'', update_error = None, history_error = None\<rparr>"

text \<open>Runs in which the insert of the history rows fails.\<close>

definition history_fails :: posting_faults where
  "history_fails = \<lparr>fetch_error = None, update_error = None, history_error = Some ''timeout''\<rparr>"

definition transfer_history_fails :: transfer_faults where
  "transfer_history_fails = \<lparr>fromErr = None, toErr = None, historyErr = Some ''timeout'',
                              transferErr = None\<rparr>"

section \<open>Facts about the rounding of numbers\<close>

lemma expo_numeral:
  "expo (numeral k) x =
     (if x < 1 then expo (pred_numeral k) (2 * x) - 1
      else if 2 \<le> x then expo (pred_numeral k) (x / 2) + 1 else 0)"
  by (simp add: numeral_eq_Suc)

lemmas fl_eval = fl_def round_even_def expo_numeral Let_def inf_of_sign_def


lemma powi_Suc: "(2::real) powi (k + 1) = 2 * 2 powi k"
  by (simp add: power_int_add)

lemma powi_pred: "(2::real) powi (k - 1) = 2 powi k / 2"
  by (simp add: power_int_diff)

lemma expo_bounds:
  "1 / 2 ^ n \<le> x \<Longrightarrow> x < 2 * 2 ^ n \<Longrightarrow>
   2 powi (expo n x) \<le> x \<and> x < 2 powi (expo n x + 1)"
proof (induction n arbitrary: x)
  case 0
  then show ?case by simp
next
  case (Suc n)
  have p: "(0::real) < 2 ^ n" by simp
  have lo: "1 / 2 ^ n \<le> 2 * x"
    using Suc.prems(1) p by (simp add: field_simps)
  have hi: "x / 2 < 2 * 2 ^ n"
    using Suc.prems(2) by simp
  have one: "(1::real) \<le> 2 ^ n" by simp
  have le1: "1 / 2 ^ n \<le> (1::real)" using one by (simp add: field_simps)
  show ?case
  proof (cases "x < 1")
    case True
    have "2 * x < 2 * 2 ^ n" using True one by linarith
    with lo have "2 powi (expo n (2 * x)) \<le> 2 * x \<and> 2 * x < 2 powi (expo n (2 * x) + 1)"
      by (rule Suc.IH)
    then have "2 powi (expo n (2 * x) - 1) \<le> x \<and> x < 2 powi (expo n (2 * x))"
      using powi_pred [of "expo n (2 * x)"] powi_Suc [of "expo n (2 * x)"] by linarith
    then show ?thesis
      using True by simp
  next
    case False
    show ?thesis
    proof (cases "2 \<le> x")
      case True
      have "1 / 2 ^ n \<le> x / 2" using True le1 by linarith
      then have "2 powi (expo n (x / 2)) \<le> x / 2 \<and> x / 2 < 2 powi (expo n (x / 2) + 1)"
        using hi by (rule Suc.IH)
      then have "2 powi (expo n (x / 2) + 1) \<le> x \<and> x < 2 powi (expo n (x / 2) + 1 + 1)"
        using powi_Suc [of "expo n (x / 2)"] powi_Suc [of "expo n (x / 2) + 1"] by linarith
      then show ?thesis
        using True False by simp
    next
      case F2: False
      then show ?thesis using False by simp
    qed
  qed
qed

lemma expo_small:
  "0 < x \<Longrightarrow> x < 1 / 2 ^ n \<Longrightarrow> expo n x = - int n"
proof (induction n arbitrary: x)
  case 0
  then show ?case by simp
next
  case (Suc n)
  have one: "(1::real) \<le> 2 ^ Suc n" by (rule one_le_power) simp
  have le1: "1 / 2 ^ Suc n \<le> (1::real)" using one by (simp add: field_simps)
  have x1: "x < 1" using Suc.prems(2) le1 by linarith
  have "2 * x < 1 / 2 ^ n"
    using Suc.prems(2) by (simp add: field_simps)
  then have "expo n (2 * x) = - int n" using Suc.prems(1) by (intro Suc.IH) simp_all
  then show ?case using x1 by simp
qed

lemma round_even_error: "\<bar>of_int (round_even x) - x\<bar> \<le> 1 / 2"
  unfolding round_even_def Let_def by (auto; linarith)



lemma fl_error:
  assumes "\<bar>r\<bar> \<le> 2 ^ 1023"
  shows "\<exists>v. fl r = Fin v \<and> \<bar>v - r\<bar> \<le> \<bar>r\<bar> / 2 ^ 53 + 1 / 2 ^ 1075"
proof (cases "r = 0")
  case True
  then show ?thesis by (simp add: fl_def)
next
  case False
  define x where "x = \<bar>r\<bar>"
  define e0 where "e0 = expo 2200 x"
  define e where "e = max e0 (- 1022)"
  define q where "q = (2::real) powi (e - 52)"
  define m where "m = round_even (r / q)"
  have xpos: "0 < x" using False by (simp add: x_def)
  have qpos: "0 < q" by (simp add: q_def)
  have x_hi: "x \<le> 2 powi 1023" using assms by (simp add: x_def)
  have e0_cases: "(e0 = - 2200 \<and> x < 1 / 2 ^ 2200) \<or> (2 powi e0 \<le> x \<and> 1 / 2 ^ 2200 \<le> x)"
  proof (cases "x < 1 / 2 ^ 2200")
    case True
    then show ?thesis using expo_small [OF xpos True] by (simp add: e0_def)
  next
    case F: False
    have "x < 2 * 2 ^ 2200"
    proof -
      have "(2::real) powi 1023 < 2 * 2 ^ 2200"
        by simp
      then show ?thesis using x_hi by linarith
    qed
    then show ?thesis using expo_bounds [of 2200 x] F by (simp add: e0_def)
  qed
  have e0_hi: "e0 \<le> 1023"
  proof (cases "e0 = - 2200")
    case True
    then show ?thesis by simp
  next
    case F: False
    then have "(2::real) powi e0 \<le> 2 powi 1023" using e0_cases x_hi by linarith
    then show ?thesis by (rule power_int_le_imp_le_exp [rotated]) simp_all
  qed
  have e_hi: "e \<le> 1023" using e0_hi by (simp add: e_def)
  have half: "q / 2 = 2 powi (e - 53)"
  proof -
    have "(2::real) powi (e - 53) = 2 powi (e - 52 - 1)" by simp
    also have "\<dots> = 2 powi (e - 52) / 2" by (rule powi_pred)
    finally show ?thesis by (simp add: q_def)
  qed
  have err: "\<bar>of_int m * q - r\<bar> \<le> q / 2"
  proof -
    have "\<bar>of_int m - r / q\<bar> \<le> 1 / 2" unfolding m_def by (rule round_even_error)
    then have "\<bar>of_int m - r / q\<bar> * q \<le> 1 / 2 * q"
      using qpos by (intro mult_right_mono) simp_all
    moreover have "\<bar>of_int m - r / q\<bar> * q = \<bar>of_int m * q - r\<bar>"
    proof -
      have "\<bar>of_int m - r / q\<bar> * q = \<bar>(of_int m - r / q) * q\<bar>"
        using qpos by (simp add: abs_mult)
      also have "(of_int m - r / q) * q = of_int m * q - r"
        using qpos by (simp add: field_simps)
      finally show ?thesis .
    qed
    ultimately show ?thesis by simp
  qed
  have qbound: "q / 2 \<le> x / 2 ^ 53 + 1 / 2 ^ 1075"
  proof (cases "e0 \<le> - 1022")
    case True
    then have "e = - 1022" by (simp add: e_def)
    then have "q / 2 = 2 powi (- 1075)" using half by simp
    also have "\<dots> = 1 / 2 ^ 1075" by (simp add: power_int_minus field_simps)
    finally show ?thesis using xpos by simp
  next
    case F: False
    then have ee: "e = e0" by (simp add: e_def)
    from F have "e0 \<noteq> - 2200" by simp
    then have lo: "2 powi e0 \<le> x" using e0_cases by blast
    have "q / 2 = 2 powi (e0 - 53)" using half ee by simp
    also have "\<dots> = 2 powi e0 / 2 ^ 53"
      by (simp add: power_int_diff)
    also have "\<dots> \<le> x / 2 ^ 53" using lo by (simp add: divide_right_mono)
    finally show ?thesis by simp
  qed
  have q970: "q / 2 \<le> 2 powi 970"
    unfolding half using e_hi by (intro power_int_increasing) simp_all
  have no_ovf: "\<bar>of_int m\<bar> * q < 2 powi 1024"
  proof -
    have "\<bar>of_int m\<bar> * q = \<bar>of_int m * q\<bar>" using qpos by (simp add: abs_mult)
    also have "\<dots> \<le> x + q / 2" using err unfolding x_def by linarith
    also have "\<dots> \<le> 2 powi 1023 + 2 powi 970" using x_hi q970 by linarith
    also have "\<dots> < 2 powi 1024" by simp
    finally show ?thesis .
  qed
  have "fl r = Fin (of_int m * q)"
    using False no_ovf
    by (simp add: fl_def Let_def m_def q_def e_def e0_def x_def)
  moreover have "\<bar>of_int m * q - r\<bar> \<le> \<bar>r\<bar> / 2 ^ 53 + 1 / 2 ^ 1075"
    using err qbound by (simp add: x_def)
  ultimately show ?thesis by blast
qed


text \<open>The error of a rounding, for the sizes of amounts of money.\<close>

lemma fl_approx:
  assumes "\<bar>r\<bar> \<le> M" and "M \<le> 10 ^ 13" and "M / (5 * 10 ^ 15) + 1 / 10 ^ 20 \<le> E"
  shows "\<exists>v. fl r = Fin v \<and> \<bar>v - r\<bar> \<le> E"
proof -
  have "(10::real) ^ 13 \<le> 2 ^ 1023" by simp
  then have "\<bar>r\<bar> \<le> 2 ^ 1023" using assms by linarith
  from fl_error [OF this] obtain v
    where v: "fl r = Fin v" and e: "\<bar>v - r\<bar> \<le> \<bar>r\<bar> / 2 ^ 53 + 1 / 2 ^ 1075"
    by blast
  have "\<bar>r\<bar> / 2 ^ 53 \<le> M / 2 ^ 53" using assms(1) by (simp add: divide_right_mono)
  also have "\<dots> \<le> M / (5 * 10 ^ 15)"
  proof -
    have "0 \<le> M" using assms(1) by linarith
    moreover have "(5 * 10 ^ 15 :: real) \<le> 2 ^ 53" by simp
    ultimately show ?thesis by (intro divide_left_mono) simp_all
  qed
  finally have a: "\<bar>r\<bar> / 2 ^ 53 \<le> M / (5 * 10 ^ 15)" .
  have b: "(1::real) / 2 ^ 1075 \<le> 1 / 10 ^ 20" by simp
  show ?thesis using v e a b assms(3) by (intro exI [of _ v]) linarith
qed

lemma abs_of_int_le:
  fixes n :: int
  shows "\<bar>n\<bar> \<le> 10 ^ 12 \<Longrightarrow> \<bar>real_of_int n\<bar> \<le> 10 ^ 12"
    and "\<bar>n\<bar> \<le> 2 * 10 ^ 12 \<Longrightarrow> \<bar>real_of_int n\<bar> \<le> 2 * 10 ^ 12"
  by (simp_all flip: of_int_abs)

lemma cents_approx:
  assumes "\<bar>n\<bar> \<le> 10 ^ 12"
  shows "\<exists>c. cents n = Fin c \<and> \<bar>c - of_int n / 100\<bar> \<le> 3 / 1000000"
proof -
  have "\<bar>real_of_int n / 100\<bar> \<le> 10 ^ 10"
    using abs_of_int_le(1) [OF assms] by simp
  then have "\<exists>c. fl (of_int n / 100) = Fin c \<and> \<bar>c - of_int n / 100\<bar> \<le> 3 / 1000000"
    by (rule fl_approx) simp_all
  then show ?thesis by (simp add: cents_def)
qed

lemma floor_near:
  fixes p :: real
  assumes "\<bar>p - of_int n\<bar> < 1 / 2"
  shows "\<lfloor>p + 1 / 2\<rfloor> = n"
  using assms by (intro floor_unique) linarith+

lemma round2_Fin:
  "round2 (Fin v) = (case fl (v * 100) of Fin p \<Rightarrow> cents \<lfloor>p + 1 / 2\<rfloor> | w \<Rightarrow> w)"
  by (cases "fl (v * 100)") (simp_all add: round2_def cents_def inf_of_sign_def)

lemma round2_near:
  assumes "\<bar>v\<bar> \<le> 5 * 10 ^ 10 + 1" and "\<bar>100 * v - of_int n\<bar> \<le> 498 / 1000"
  shows "round2 (Fin v) = cents n"
proof -
  have "\<bar>v * 100\<bar> \<le> 51 * 10 ^ 11" using assms(1) by simp
  then have "\<exists>p. fl (v * 100) = Fin p \<and> \<bar>p - v * 100\<bar> \<le> 11 / 10000"
    by (rule fl_approx) simp_all
  then obtain p where p: "fl (v * 100) = Fin p" and e: "\<bar>p - v * 100\<bar> \<le> 11 / 10000"
    by blast
  have "\<bar>p - of_int n\<bar> < 1 / 2" using e assms(2) by linarith
  then have "\<lfloor>p + 1 / 2\<rfloor> = n" by (rule floor_near)
  then show ?thesis by (simp add: round2_Fin p)
qed

lemma round2_bound:
  assumes "\<bar>v\<bar> \<le> 2 ^ 1000"
  shows "\<exists>n. round2 (Fin v) = cents n
           \<and> \<bar>of_int n - 100 * v\<bar> \<le> 1 / 2 + \<bar>100 * v\<bar> / 2 ^ 53 + 1 / 2 ^ 1075"
proof -
  have "\<bar>v * 100\<bar> \<le> 2 ^ 1023" using assms by simp
  from fl_error [OF this] obtain p
    where p: "fl (v * 100) = Fin p"
      and e: "\<bar>p - v * 100\<bar> \<le> \<bar>v * 100\<bar> / 2 ^ 53 + 1 / 2 ^ 1075"
    by blast
  have f: "\<bar>of_int \<lfloor>p + 1 / 2\<rfloor> - p\<bar> \<le> 1 / 2" by linarith
  have m: "v * 100 = 100 * v" by simp
  have r: "round2 (Fin v) = cents \<lfloor>p + 1 / 2\<rfloor>" by (simp add: round2_Fin p)
  have "\<bar>of_int \<lfloor>p + 1 / 2\<rfloor> - 100 * v\<bar> \<le> 1 / 2 + \<bar>100 * v\<bar> / 2 ^ 53 + 1 / 2 ^ 1075"
    using e f unfolding m by linarith
  with r show ?thesis by blast
qed

text \<open>A sum or difference of a whole number of cents and an amount, rounded to cents.\<close>

lemma sum_approx:
  fixes a b :: real
  assumes "\<bar>a\<bar> \<le> 25 * 10 ^ 9" and "\<bar>b\<bar> \<le> 25 * 10 ^ 9"
  shows "\<exists>v. fl (a + b) = Fin v \<and> \<bar>v - (a + b)\<bar> \<le> 2 / 100000"
proof -
  have "(25 * 10 ^ 9 :: real) + 25 * 10 ^ 9 = 5 * 10 ^ 10" by simp
  then have "\<bar>a + b\<bar> \<le> 5 * 10 ^ 10" using assms by linarith
  then show ?thesis by (rule fl_approx) simp_all
qed

lemma cents_plus_amount:
  assumes B: "\<bar>B\<bar> \<le> 10 ^ 12" and X: "\<bar>X\<bar> \<le> 2 * 10 ^ 12"
    and a: "\<bar>100 * a - of_int X\<bar> \<le> e" and e: "e \<le> 49 / 100"
  shows "\<exists>v. js_add (cents B) (Fin a) = Fin v \<and> \<bar>v\<bar> \<le> 5 * 10 ^ 10 + 1
            \<and> \<bar>100 * v - of_int (B + X)\<bar> \<le> e + 3 / 1000"
proof -
  from cents_approx [OF B] obtain c
    where c: "cents B = Fin c" and ce: "\<bar>c - of_int B / 100\<bar> \<le> 3 / 1000000"
    by blast
  note Br = abs_of_int_le(1) [OF B] and Xr = abs_of_int_le(2) [OF X]
  have n: "(10 ^ 12 :: real) = 1000000000000" "(2 * 10 ^ 12 :: real) = 2000000000000"
    "(25 * 10 ^ 9 :: real) = 25000000000" "(5 * 10 ^ 10 :: real) = 50000000000"
    by simp_all
  have cb: "\<bar>c\<bar> \<le> 25 * 10 ^ 9" using ce Br n by linarith
  have ab: "\<bar>a\<bar> \<le> 25 * 10 ^ 9" using a e Xr n by linarith
  from sum_approx [OF cb ab] obtain v
    where v: "fl (c + a) = Fin v" and ve: "\<bar>v - (c + a)\<bar> \<le> 2 / 100000"
    by blast
  have "\<bar>v\<bar> \<le> 5 * 10 ^ 10 + 1" using ve cb ab n by linarith
  moreover have "\<bar>100 * v - of_int (B + X)\<bar> \<le> e + 3 / 1000"
    unfolding of_int_add using ve ce a by linarith
  ultimately show ?thesis using c v by simp
qed

lemma cents_minus_amount:
  assumes B: "\<bar>B\<bar> \<le> 10 ^ 12" and X: "\<bar>X\<bar> \<le> 2 * 10 ^ 12"
    and a: "\<bar>100 * a - of_int X\<bar> \<le> e" and e: "e \<le> 49 / 100"
  shows "\<exists>v. js_sub (cents B) (Fin a) = Fin v \<and> \<bar>v\<bar> \<le> 5 * 10 ^ 10 + 1
            \<and> \<bar>100 * v - of_int (B - X)\<bar> \<le> e + 3 / 1000"
proof -
  have X': "\<bar>- X\<bar> \<le> 2 * 10 ^ 12" using X by simp
  have a': "\<bar>100 * (- a) - of_int (- X)\<bar> \<le> e"
    unfolding of_int_minus using a by linarith
  have s: "js_sub (cents B) (Fin a) = js_add (cents B) (Fin (- a))"
    by (cases "cents B") simp_all
  have m: "B + - X = B - X" by simp
  show ?thesis
    using cents_plus_amount [OF B X' a' e] unfolding s m .
qed

lemma round2_cents_plus:
  assumes "\<bar>B\<bar> \<le> 10 ^ 12" and "\<bar>X\<bar> \<le> 2 * 10 ^ 12" and "\<bar>100 * a - of_int X\<bar> \<le> 49 / 100"
  shows "round2 (js_add (cents B) (Fin a)) = cents (B + X)"
proof -
  from cents_plus_amount [OF assms order_refl] obtain v
    where v: "js_add (cents B) (Fin a) = Fin v" and b: "\<bar>v\<bar> \<le> 5 * 10 ^ 10 + 1"
      and "\<bar>100 * v - of_int (B + X)\<bar> \<le> 49 / 100 + 3 / 1000"
    by blast
  then have "\<bar>100 * v - of_int (B + X)\<bar> \<le> 498 / 1000" by linarith
  with b show ?thesis unfolding v by (rule round2_near)
qed

lemma round2_cents_minus:
  assumes "\<bar>B\<bar> \<le> 10 ^ 12" and "\<bar>X\<bar> \<le> 2 * 10 ^ 12" and "\<bar>100 * a - of_int X\<bar> \<le> 49 / 100"
  shows "round2 (js_sub (cents B) (Fin a)) = cents (B - X)"
proof -
  from cents_minus_amount [OF assms order_refl] obtain v
    where v: "js_sub (cents B) (Fin a) = Fin v" and b: "\<bar>v\<bar> \<le> 5 * 10 ^ 10 + 1"
      and "\<bar>100 * v - of_int (B - X)\<bar> \<le> 49 / 100 + 3 / 1000"
    by blast
  then have "\<bar>100 * v - of_int (B - X)\<bar> \<le> 498 / 1000" by linarith
  with b show ?thesis unfolding v by (rule round2_near)
qed

text \<open>Sums and differences of whole numbers of cents, as a column that rounds stores them.\<close>

lemma column_cents_plus:
  assumes r: "rounds_to_cents col" and S: "\<bar>S\<bar> < 10 ^ 12" and K: "\<bar>K\<bar> < 10 ^ 12"
    and SK: "\<bar>S + K\<bar> < 10 ^ 12"
  shows "col (js_add (cents S) (cents K)) = cents (S + K)"
proof -
  have S': "\<bar>S\<bar> \<le> 10 ^ 12" and K': "\<bar>K\<bar> \<le> 10 ^ 12" and K2: "\<bar>K\<bar> \<le> 2 * 10 ^ 12"
    using S K by simp_all
  from cents_approx [OF K'] obtain a
    where a: "cents K = Fin a" and ae: "\<bar>a - of_int K / 100\<bar> \<le> 3 / 1000000"
    by blast
  have a1: "\<bar>100 * a - of_int K\<bar> \<le> 1 / 100" using ae by linarith
  have "(1 / 100 :: real) \<le> 49 / 100" by simp
  from cents_plus_amount [OF S' K2 a1 this] obtain v
    where v: "js_add (cents S) (Fin a) = Fin v"
      and "\<bar>100 * v - of_int (S + K)\<bar> \<le> 1 / 100 + 3 / 1000"
    by blast
  then have "\<bar>100 * v - of_int (S + K)\<bar> \<le> 49 / 100" by linarith
  then have "col (Fin v) = cents (S + K)"
    using r SK unfolding rounds_to_cents_def by blast
  then show ?thesis by (simp only: a v)
qed

lemma column_cents_minus:
  assumes r: "rounds_to_cents col" and S: "\<bar>S\<bar> < 10 ^ 12" and K: "\<bar>K\<bar> < 10 ^ 12"
    and SK: "\<bar>S - K\<bar> < 10 ^ 12"
  shows "col (js_sub (cents S) (cents K)) = cents (S - K)"
proof -
  have S': "\<bar>S\<bar> \<le> 10 ^ 12" and K': "\<bar>K\<bar> \<le> 10 ^ 12" and K2: "\<bar>K\<bar> \<le> 2 * 10 ^ 12"
    using S K by simp_all
  from cents_approx [OF K'] obtain a
    where a: "cents K = Fin a" and ae: "\<bar>a - of_int K / 100\<bar> \<le> 3 / 1000000"
    by blast
  have a1: "\<bar>100 * a - of_int K\<bar> \<le> 1 / 100" using ae by linarith
  have "(1 / 100 :: real) \<le> 49 / 100" by simp
  from cents_minus_amount [OF S' K2 a1 this] obtain v
    where v: "js_sub (cents S) (Fin a) = Fin v"
      and "\<bar>100 * v - of_int (S - K)\<bar> \<le> 1 / 100 + 3 / 1000"
    by blast
  then have "\<bar>100 * v - of_int (S - K)\<bar> \<le> 49 / 100" by linarith
  then have "col (Fin v) = cents (S - K)"
    using r SK unfolding rounds_to_cents_def by blast
  then show ?thesis by (simp only: a v)
qed

text \<open>The example column rounds to the cent.\<close>

lemma round_away_near:
  assumes "\<bar>y - of_int n\<bar> < 1 / 2"
  shows "round_away y = n"
proof -
  have "\<lfloor>y + 1 / 2\<rfloor> = n" using assms by (intro floor_unique) linarith+
  moreover have "\<lfloor>1 / 2 - y\<rfloor> = - n"
  proof (rule floor_unique)
    show "of_int (- n) \<le> 1 / 2 - y" unfolding of_int_minus using assms by linarith
    show "1 / 2 - y < of_int (- n) + 1" unfolding of_int_minus using assms by linarith
  qed
  ultimately show ?thesis by (simp add: round_away_def)
qed

lemma half_integer_apart:
  fixes k n :: int
  shows "1 / 2 \<le> \<bar>real_of_int k + 1 / 2 - real_of_int n\<bar>"
proof (cases "n \<le> k")
  case True
  then have "real_of_int n \<le> real_of_int k" by simp
  then show ?thesis by linarith
next
  case False
  then have "k + 1 \<le> n" by simp
  then have "real_of_int (k + 1) \<le> real_of_int n" by (simp only: of_int_le_iff)
  then have "real_of_int k + 1 \<le> real_of_int n" by simp
  then show ?thesis by linarith
qed

lemma rounds_to_cents_example: "rounds_to_cents cents_column"
proof -
  have "cents_column (Fin v) = cents n"
    if h: "\<bar>100 * v - of_int n\<bar> \<le> 49 / 100" and n: "\<bar>n\<bar> < 10 ^ 12" for v n
  proof -
    define k where "k = \<lfloor>100 * v\<rfloor>"
    define t where "t = (real_of_int k + 1 / 2) / 100"
    have nr: "\<bar>real_of_int n\<bar> \<le> 10 ^ 12"
      using n by (intro abs_of_int_le(1)) simp
    have c: "(10 ^ 12 :: real) = 1000000000000" "(2 * 10 ^ 10 :: real) = 20000000000"
      by simp_all
    have kb: "real_of_int k \<le> 100 * v" "100 * v < real_of_int k + 1"
      unfolding k_def by linarith+
    have nr': "\<bar>real_of_int n\<bar> \<le> 1000000000000"
      using nr by simp
    have kk: "real_of_int k + 1 / 2 \<le> 1000000000002" "- 1000000000002 \<le> real_of_int k + 1 / 2"
      using kb h nr' by linarith+
    have t100: "100 * t = real_of_int k + 1 / 2" unfolding t_def by simp
    have tb: "\<bar>t\<bar> \<le> 2 * 10 ^ 10"
      using kk t100 c by linarith
    have far: "fl t \<noteq> Fin v"
    proof
      assume eq: "fl t = Fin v"
      have "\<exists>w. fl t = Fin w \<and> \<bar>w - t\<bar> \<le> 1 / 100000"
        using tb by (rule fl_approx) simp_all
      then have "\<bar>v - t\<bar> \<le> 1 / 100000" using eq by auto
      moreover have "100 * t = real_of_int k + 1 / 2" unfolding t_def by simp
      ultimately have "\<bar>100 * v - (real_of_int k + 1 / 2)\<bar> \<le> 1 / 1000"
        by linarith
      then show False using half_integer_apart [of k n] h by linarith
    qed
    from h have "\<bar>100 * v - of_int n\<bar> < 1 / 2" by linarith
    then have "round_away (100 * v) = n" by (rule round_away_near)
    then show ?thesis
      using far by (simp add: cents_column_def Let_def k_def t_def)
  qed
  then show ?thesis unfolding rounds_to_cents_def by blast
qed

lemma rounds_to_cents_keeps:
  assumes "rounds_to_cents col" and "\<bar>n\<bar> < 10 ^ 12"
  shows "col (cents n) = cents n"
proof -
  have "\<bar>n\<bar> \<le> 10 ^ 12" using assms(2) by simp
  from cents_approx [OF this] obtain c
    where c: "cents n = Fin c" and ce: "\<bar>c - of_int n / 100\<bar> \<le> 3 / 1000000"
    by blast
  have "\<bar>100 * c - of_int n\<bar> \<le> 49 / 100" using ce by linarith
  then have "col (Fin c) = cents n" using assms unfolding rounds_to_cents_def by blast
  then show ?thesis by (simp add: c)
qed

section \<open>Facts about the store and the posting primitive\<close>

lemma js_add_neg: "js_add a (js_neg b) = js_sub a b"
  by (cases a; cases b) simp_all

lemma filter_update_same:
  "filter (\<lambda>a. acc_id a = i) (map (\<lambda>a. if acc_id a = i then a\<lparr>current_balance := b\<rparr> else a) xs)
   = map (\<lambda>a. a\<lparr>current_balance := b\<rparr>) (filter (\<lambda>a. acc_id a = i) xs)"
  by (induction xs) auto

lemma select_after_update:
  assumes "select_current_balance d i = Some c"
  shows "select_current_balance (update_current_balance None i b d) i = Some (balance_column d b)"
proof -
  from assms obtain a where a: "filter (\<lambda>a. acc_id a = i) (accounts d) = [a]"
    by (auto simp: select_current_balance_def split: list.splits)
  show ?thesis
    by (simp add: select_current_balance_def update_current_balance_def filter_update_same a)
qed

lemma select_insert_history [simp]:
  "select_current_balance (insert_history err rows d) i = select_current_balance d i"
  by (simp add: select_current_balance_def insert_history_def split: option.splits)

lemma column_update [simp]:
  "balance_column (update_current_balance err i b d) = balance_column d"
  by (simp add: update_current_balance_def split: option.splits)

lemma column_insert_history [simp]:
  "balance_column (insert_history err rows d) = balance_column d"
  by (simp add: insert_history_def split: option.splits)

lemma column_posting [simp]:
  "balance_column (updateAccountBalance env d i u x ty op nte) = balance_column d"
  by (simp add: updateAccountBalance_def Let_def split: option.splits)

lemma posting_select:
  assumes "fetch_error env = None" and "update_error env = None"
    and "select_current_balance d i = Some cur"
  shows "select_current_balance (updateAccountBalance env d i u x ty op nte) i
         = Some (balance_column d (round2 (js_add cur (posting_delta ty op x))))"
  using assms by (simp add: updateAccountBalance_def Let_def select_after_update)

lemma select_db0: "select_current_balance db0 ''a1'' = Some (Fin 1000)"
  by (simp add: db0_def select_current_balance_def)

lemma column_db0 [simp]: "balance_column db0 = cents_column"
  by (simp add: db0_def)

lemma no_faults_simps [simp]:
  "fetch_error no_faults = None" "update_error no_faults = None" "history_error no_faults = None"
  by (simp_all add: no_faults_def)

lemmas column_eval = cents_column_def round_away_def cents_def fl_eval

section \<open>The sign rule of a posting\<close>

text \<open>
  Claim C1, as amended. A posting of an amount \<open>x \<ge> 0\<close> to an account whose balance reads
  \<open>cur\<close> writes, when the read and the update succeed, \<open>round2 (cur + x)\<close> for \<open>add\<close> on a
  credit card and for \<open>remove\<close> on a bank account, and \<open>round2 (cur - x)\<close> for \<open>remove\<close> on
  a credit card and for \<open>add\<close> on a bank account; the balance is then what the column
  of the store makes of that number. The sum and the difference are rounded to the
  number format, and so is every step of \<open>round2\<close>: it multiplies by 100 and rounds the
  product to the format, takes the nearest integer \<open>k\<close> of that with a tie going up, and
  returns the number of the format nearest to \<open>k / 100\<close>. For a value of at most
  \<open>5 \<sqdot> 10\<^sup>1\<^sup>0\<close> that is within 0.00498 of a whole number of cents this is that number of
  cents; in general \<open>k\<close> differs from the hundredfold of the value by at most one half
  and the error of rounding the product, so that a value within that error of a half
  cent can go either way.
\<close>

theorem posting_sign_rule:
  assumes "fetch_error env = None" and "update_error env = None"
    and "select_current_balance d i = Some cur"
    and "js_le (Fin 0) x"
  shows "select_current_balance (updateAccountBalance env d i u x credit_card Add nte) i
           = Some (balance_column d (round2 (js_add cur x)))
       \<and> select_current_balance (updateAccountBalance env d i u x credit_card Remove nte) i
           = Some (balance_column d (round2 (js_sub cur x)))
       \<and> select_current_balance (updateAccountBalance env d i u x bank_account Add nte) i
           = Some (balance_column d (round2 (js_sub cur x)))
       \<and> select_current_balance (updateAccountBalance env d i u x bank_account Remove nte) i
           = Some (balance_column d (round2 (js_add cur x)))
       \<and> round2 (Fin v) = (case fl (v * 100) of Fin p \<Rightarrow> cents \<lfloor>p + 1 / 2\<rfloor> | w \<Rightarrow> w)
       \<and> (\<bar>v\<bar> \<le> 5 * 10 ^ 10 \<and> \<bar>100 * v - of_int n\<bar> \<le> 498 / 1000 \<longrightarrow> round2 (Fin v) = cents n)
       \<and> (\<bar>v\<bar> \<le> 2 ^ 1000 \<longrightarrow>
            (\<exists>k. round2 (Fin v) = cents k
                \<and> \<bar>of_int k - 100 * v\<bar> \<le> 1 / 2 + \<bar>100 * v\<bar> / 2 ^ 53 + 1 / 2 ^ 1075))"
proof -
  have near: "\<bar>v\<bar> \<le> 5 * 10 ^ 10 \<and> \<bar>100 * v - of_int n\<bar> \<le> 498 / 1000 \<longrightarrow> round2 (Fin v) = cents n"
  proof
    assume h: "\<bar>v\<bar> \<le> 5 * 10 ^ 10 \<and> \<bar>100 * v - of_int n\<bar> \<le> 498 / 1000"
    then have "\<bar>v\<bar> \<le> 5 * 10 ^ 10 + 1" by linarith
    then show "round2 (Fin v) = cents n" using h by (intro round2_near) simp_all
  qed
  have bound: "\<bar>v\<bar> \<le> 2 ^ 1000 \<longrightarrow>
            (\<exists>k. round2 (Fin v) = cents k
                \<and> \<bar>of_int k - 100 * v\<bar> \<le> 1 / 2 + \<bar>100 * v\<bar> / 2 ^ 53 + 1 / 2 ^ 1075)"
    using round2_bound [of v] by blast
  have sel: "select_current_balance (updateAccountBalance env d i u x ty op nte) i
         = Some (balance_column d (round2 (js_add cur (posting_delta ty op x))))" for ty op
    by (rule posting_select [OF assms(1,2,3)])
  show ?thesis
    using sel [of credit_card Add] sel [of credit_card Remove] sel [of bank_account Add]
      sel [of bank_account Remove] near bound round2_Fin [of v]
    by (simp add: posting_delta_def js_add_neg)
qed

theorem posting_sign_rule_witness:
  "fetch_error no_faults = None \<and> update_error no_faults = None
   \<and> select_current_balance db0 ''a1'' = Some (Fin 1000) \<and> js_le (Fin 0) (Fin 50)
   \<and> select_current_balance
        (updateAccountBalance no_faults db0 ''a1'' ''u1'' (Fin 50) bank_account Add None) ''a1''
       = Some (Fin 950)
   \<and> select_current_balance
        (updateAccountBalance no_faults db0 ''a1'' ''u1'' (Fin 50) credit_card Add None) ''a1''
       = Some (Fin 1050)
   \<and> \<bar>1050 :: real\<bar> \<le> 5 * 10 ^ 10 \<and> \<bar>100 * 1050 - real_of_int 105000\<bar> \<le> 498 / 1000
   \<and> round2 (Fin 1050) = cents 105000 \<and> cents 105000 = Fin 1050"
proof -
  have h1: "fetch_error no_faults = None" and h2: "update_error no_faults = None"
    by simp_all
  have h4: "js_le (Fin 0) (Fin 50)" by simp
  have h5: "\<bar>1050 :: real\<bar> \<le> 5 * 10 ^ 10" and h6: "\<bar>100 * 1050 - real_of_int 105000\<bar> \<le> 498 / 1000"
    by simp_all
  have r1: "balance_column db0 (round2 (js_sub (Fin 1000) (Fin 50))) = Fin 950"
    by (simp add: round2_def column_eval)
  have r2: "balance_column db0 (round2 (js_add (Fin 1000) (Fin 50))) = Fin 1050"
    by (simp add: round2_def column_eval)
  have c: "cents 105000 = Fin 1050" by (simp add: column_eval)
  note t = posting_sign_rule [OF h1 h2 select_db0 h4, of "''u1''" None 1050 105000]
  have w1: "select_current_balance
        (updateAccountBalance no_faults db0 ''a1'' ''u1'' (Fin 50) bank_account Add None) ''a1''
       = Some (Fin 950)"
    using t [THEN conjunct2, THEN conjunct2, THEN conjunct1] unfolding r1 .
  have w2: "select_current_balance
        (updateAccountBalance no_faults db0 ''a1'' ''u1'' (Fin 50) credit_card Add None) ''a1''
       = Some (Fin 1050)"
    using t [THEN conjunct1] unfolding r2 .
  have w3: "round2 (Fin 1050) = cents 105000"
    using t [THEN conjunct2, THEN conjunct2, THEN conjunct2, THEN conjunct2, THEN conjunct2,
        THEN conjunct1] h5 h6
    by blast
  show ?thesis
    by (intro conjI) (rule h1 h2 select_db0 h4 h5 h6 w1 w2 w3 c)+
qed

text \<open>
  As stated, with \<open>round2\<close> rounding the sum half-up to two decimals, the claim fails,
  whether the sum is read as the number it is or as the decimal that stands for it. The
  balance 1000.00 plus the amount \<^verbatim>\<open>0.005\<close> is a number below 1000.005, which half-up
  rounding takes to 1000.00; its product with 100 is rounded to 100000.5, and the posting
  writes 1000.01. The balance 1.00 plus the amount \<^verbatim>\<open>0.005\<close> is the number that \<^verbatim>\<open>1.005\<close>
  denotes, which half-up rounding of the decimal takes to 1.01; its product with 100 is
  below 100.5, and \<open>round2\<close> gives 1.00.
\<close>

theorem posting_sign_rule_counterexample:
  "select_current_balance db0 ''a1'' = Some (Fin 1000)
   \<and> js_le (Fin 0) half_cent
   \<and> js_add (Fin 1000) half_cent = Fin (8796137002673111 / 8796093022208)
   \<and> 100 * (8796137002673111 / 8796093022208) < (100000 + 1 / 2 :: real)
   \<and> select_current_balance
        (updateAccountBalance no_faults db0 ''a1'' ''u1'' half_cent credit_card Add None) ''a1''
       = Some (cents 100001)
   \<and> cents 100001 \<noteq> cents 100000
   \<and> js_add (Fin 1) half_cent = fl (1005 / 1000)
   \<and> round2 (js_add (Fin 1) half_cent) = cents 100
   \<and> cents 100 \<noteq> cents 101"
proof -
  have x: "js_le (Fin 0) half_cent"
    by (simp add: half_cent_def fl_eval)
  have s: "js_add (Fin 1000) half_cent = Fin (8796137002673111 / 8796093022208)"
    by (simp add: half_cent_def fl_eval)
  have l: "100 * (8796137002673111 / 8796093022208) < (100000 + 1 / 2 :: real)"
    by simp
  have e: "balance_column db0 (round2 (js_add (Fin 1000) (posting_delta credit_card Add half_cent)))
           = cents 100001"
    by (simp add: posting_delta_def half_cent_def round2_def column_eval)
  have n: "cents 100001 \<noteq> cents 100000"
    by (simp add: column_eval)
  have p: "select_current_balance
        (updateAccountBalance no_faults db0 ''a1'' ''u1'' half_cent credit_card Add None) ''a1''
       = Some (cents 100001)"
    using posting_select [OF no_faults_simps(1,2) select_db0, of "''u1''" half_cent credit_card Add None]
    unfolding e .
  have s1: "js_add (Fin 1) half_cent = fl (1005 / 1000)"
    by (simp add: half_cent_def fl_eval)
  have r1: "round2 (js_add (Fin 1) half_cent) = cents 100"
    by (simp add: half_cent_def round2_def column_eval)
  have n1: "cents 100 \<noteq> cents 101"
    by (simp add: column_eval)
  show ?thesis
    by (intro conjI) (rule select_db0 x s l p n s1 r1 n1)+
qed

section \<open>Posting and taking back\<close>

text \<open>
  Claim C8, as amended. Let the balance be a whole number \<open>B\<close> of cents and let the
  hundredfold of the amount be within 0.49 of an integer \<open>X\<close>, as it is for every whole
  number of cents, but not for an amount within a hundredth of a cent of a half cent. Let
  \<open>Y\<close> be the number of cents between the two postings, \<open>B + X\<close> on a credit card and
  \<open>B - X\<close> on a bank account, let \<open>B\<close> and \<open>Y\<close> be below \<open>10\<^sup>1\<^sup>2\<close> in absolute value, and let
  the column of the store return both balances as they are written. Then \<open>add\<close> leaves
  the balance \<open>Y\<close> and \<open>remove\<close> of the same amount after it restores the balance \<open>B\<close>.
\<close>

theorem posting_round_trip:
  assumes "fetch_error env = None" and "update_error env = None"
    and "select_current_balance d i = Some (cents B)"
    and "\<bar>100 * a - of_int X\<bar> \<le> 49 / 100"
    and "Y = (if ty = credit_card then B + X else B - X)"
    and "\<bar>B\<bar> < 10 ^ 12" and "\<bar>Y\<bar> < 10 ^ 12"
    and "balance_column d (cents Y) = cents Y" and "balance_column d (cents B) = cents B"
  shows "select_current_balance (updateAccountBalance env d i u (Fin a) ty Add n1) i
           = Some (cents Y)
       \<and> select_current_balance
           (updateAccountBalance env
              (updateAccountBalance env d i u (Fin a) ty Add n1) i u' (Fin a) ty Remove n2) i
           = Some (cents B)"
proof -
  let ?d1 = "updateAccountBalance env d i u (Fin a) ty Add n1"
  have B: "\<bar>B\<bar> \<le> 10 ^ 12" and Y: "\<bar>Y\<bar> \<le> 10 ^ 12" using assms(6,7) by simp_all
  have X: "\<bar>X\<bar> \<le> 2 * 10 ^ 12" using assms(5,6,7) by (simp split: if_splits)
  have s1: "select_current_balance ?d1 i
            = Some (balance_column d (round2 (js_add (cents B) (posting_delta ty Add (Fin a)))))"
    by (rule posting_select [OF assms(1,2,3)])
  have r1: "round2 (js_add (cents B) (posting_delta ty Add (Fin a))) = cents Y"
  proof (cases ty)
    case credit_card
    then show ?thesis
      using round2_cents_plus [OF B X assms(4)] assms(5) by (simp add: posting_delta_def)
  next
    case bank_account
    then show ?thesis
      using round2_cents_minus [OF B X assms(4)] assms(5)
      by (simp add: posting_delta_def js_add_neg del: js_neg.simps)
  qed
  have s1': "select_current_balance ?d1 i = Some (cents Y)"
    by (simp only: s1 r1 assms(8))
  have s2: "select_current_balance (updateAccountBalance env ?d1 i u' (Fin a) ty Remove n2) i
            = Some (balance_column ?d1 (round2 (js_add (cents Y) (posting_delta ty Remove (Fin a)))))"
    by (rule posting_select [OF assms(1,2) s1'])
  have r2: "round2 (js_add (cents Y) (posting_delta ty Remove (Fin a))) = cents B"
  proof (cases ty)
    case credit_card
    then have "Y - X = B" using assms(5) by simp
    then show ?thesis
      using round2_cents_minus [OF Y X assms(4)] credit_card
      by (simp add: posting_delta_def js_add_neg del: js_neg.simps)
  next
    case bank_account
    then have "Y + X = B" using assms(5) by simp
    then show ?thesis
      using round2_cents_plus [OF Y X assms(4)] bank_account by (simp add: posting_delta_def)
  qed
  show ?thesis
    using s1' s2 by (simp add: r2 assms(9))
qed

theorem posting_round_trip_witness:
  "fetch_error no_faults = None \<and> update_error no_faults = None
   \<and> select_current_balance db0 ''a1'' = Some (cents 100000)
   \<and> \<bar>100 * 1500 - real_of_int 150000\<bar> \<le> 49 / 100
   \<and> \<bar>100000 :: int\<bar> < 10 ^ 12 \<and> \<bar>- 50000 :: int\<bar> < 10 ^ 12
   \<and> balance_column db0 (cents (- 50000)) = cents (- 50000)
   \<and> balance_column db0 (cents 100000) = cents 100000
   \<and> cents 100000 = Fin 1000 \<and> cents (- 50000) = Fin (- 500)
   \<and> select_current_balance
         (updateAccountBalance no_faults db0 ''a1'' ''u1'' (Fin 1500) bank_account Add None) ''a1''
       = Some (Fin (- 500))
   \<and> select_current_balance
         (updateAccountBalance no_faults
            (updateAccountBalance no_faults db0 ''a1'' ''u1'' (Fin 1500) bank_account Add None)
            ''a1'' ''u1'' (Fin 1500) bank_account Remove None) ''a1''
       = Some (Fin 1000)"
proof -
  have h1: "fetch_error no_faults = None" and h2: "update_error no_faults = None"
    by simp_all
  have c0: "cents 100000 = Fin 1000" and c1: "cents (- 50000) = Fin (- 500)"
    by (simp_all add: column_eval)
  have h3: "select_current_balance db0 ''a1'' = Some (cents 100000)"
    by (simp add: select_db0 c0)
  have h4: "\<bar>100 * 1500 - real_of_int 150000\<bar> \<le> 49 / 100" by simp
  have h5: "(- 50000 :: int) = (if bank_account = credit_card then 100000 + 150000 else 100000 - 150000)"
    by simp
  have h6: "\<bar>100000 :: int\<bar> < 10 ^ 12" and h7: "\<bar>- 50000 :: int\<bar> < 10 ^ 12" by simp_all
  have h8: "balance_column db0 (cents (- 50000)) = cents (- 50000)"
    by (simp add: c1) (simp add: column_eval)
  have h9: "balance_column db0 (cents 100000) = cents 100000"
    by (simp add: c0) (simp add: column_eval)
  show ?thesis
    using posting_round_trip [OF h1 h2 h3 h4 h5 h6 h7 h8 h9, of "''u1''" None "''u1''" None]
      h3 h4 h8 h9 c0 c1
    by simp
qed

text \<open>
  As stated for every amount, the claim fails: on a bank account at 1000.00 the amount
  \<^verbatim>\<open>0.005\<close> is rounded away by \<open>add\<close> (the balance stays 1000.00) and rounded up by
  \<open>remove\<close>, which leaves 1000.01.
\<close>

theorem posting_round_trip_counterexample:
  "js_le (Fin 0) half_cent
   \<and> select_current_balance db0 ''a1'' = Some (cents 100000)
   \<and> select_current_balance
         (updateAccountBalance no_faults db0 ''a1'' ''u1'' half_cent bank_account Add None)
         ''a1'' = Some (cents 100000)
   \<and> select_current_balance
         (updateAccountBalance no_faults
            (updateAccountBalance no_faults db0 ''a1'' ''u1'' half_cent bank_account Add None)
            ''a1'' ''u1'' half_cent bank_account Remove None) ''a1''
       = Some (cents 100001)
   \<and> cents 100001 \<noteq> cents 100000"
proof -
  have x: "js_le (Fin 0) half_cent"
    by (simp add: half_cent_def fl_eval)
  have c0: "Fin 1000 = cents 100000"
    by (simp add: column_eval)
  have n: "cents 100001 \<noteq> cents 100000"
    by (simp add: column_eval)
  let ?d1 = "updateAccountBalance no_faults db0 ''a1'' ''u1'' half_cent bank_account Add None"
  have a1: "balance_column db0 (round2 (js_add (Fin 1000) (posting_delta bank_account Add half_cent)))
            = cents 100000"
    by (simp add: posting_delta_def half_cent_def round2_def column_eval)
  have a2: "balance_column ?d1
              (round2 (js_add (cents 100000) (posting_delta bank_account Remove half_cent)))
            = cents 100001"
    by (simp add: posting_delta_def half_cent_def round2_def column_eval)
  have s0: "select_current_balance db0 ''a1'' = Some (cents 100000)"
    using select_db0 unfolding c0 .
  have s1: "select_current_balance ?d1 ''a1'' = Some (cents 100000)"
    using posting_select [OF no_faults_simps(1,2) select_db0, of "''u1''" half_cent bank_account Add None]
    unfolding a1 .
  have s2: "select_current_balance
              (updateAccountBalance no_faults ?d1 ''a1'' ''u1'' half_cent bank_account Remove None) ''a1''
            = Some (cents 100001)"
    using posting_select [OF no_faults_simps(1,2) s1, of "''u1''" half_cent bank_account Remove None]
    unfolding a2 .
  show ?thesis
    by (intro conjI) (rule x s0 s1 s2 n)+
qed

section \<open>Facts about rate tables\<close>

lemma getExchangeRates_miss:
  assumes "cache_miss now cache b"
  shows "getExchangeRates fetch now cache b =
     (case fetchRates fetch b of
        Inl e \<Rightarrow> (Inl e, cache)
      | Inr r \<Rightarrow> (Inr (set_rate r b (Fin 1)),
                  Some \<lparr>cache_base = b, cache_rates = set_rate r b (Fin 1), fetchedAt = now\<rparr>))"
  using assms
  by (auto simp: getExchangeRates_def cache_miss_def Let_def split: option.splits sum.splits)












section \<open>A failed rate fetch\<close>




text \<open>The transport error in general: the exception propagates and the cache stays.\<close>

lemma getExchangeRates_transport_error:
  assumes "cache_miss now cache b" and "fetch b = NetworkError"
  shows "getExchangeRates fetch now cache b = (Inl FetchRejected, cache)"
  using assms(2) by (simp add: getExchangeRates_miss [OF assms(1)] fetchRates_def)

section \<open>Conversion to the base currency\<close>




section \<open>No division by zero\<close>




section \<open>Facts about the transfer orchestrator\<close>

lemma find_acc_id: "find (\<lambda>a. acc_id a = i) accs = Some a \<Longrightarrow> acc_id a = i"
  by (auto simp: find_Some_iff)

lemma handleTransfer_checked:
  assumes "passes_checks f accs from to"
  shows "handleTransfer env fc u now f accs d =
     (case fromErr env of
        Some msg \<Rightarrow> (Some (toast_error (''Failed to update source account: '' @ msg)), accs, d)
      | None \<Rightarrow>
          (case toErr env of
             Some msg \<Rightarrow>
               (Some (toast_error (''Failed to update target account: '' @ msg)), accs,
                update_current_balance None (acc_id from)
                  (newFromBalance from (transferAmount f)) d)
           | None \<Rightarrow>
               (Some (toast_success
                  (''Transferred '' @ fc (transferAmount f) (currency from)
                   @ '' from '' @ account_name from @ '' to '' @ account_name to)),
                map (\<lambda>a. if acc_id a = acc_id from
                         then a\<lparr>current_balance := newFromBalance from (transferAmount f)\<rparr>
                         else if acc_id a = acc_id to
                         then a\<lparr>current_balance := newToBalance to (transferAmount f)\<rparr>
                         else a) accs,
                insert_transfer (transferErr env)
                  (transfer_row u (transfer_today f now) f from to)
                  (insert_history (historyErr env)
                     (transfer_history_rows u (transfer_today f now) f from to)
                     (update_current_balance None (acc_id to)
                        (newToBalance to (transferAmount f))
                        (update_current_balance None (acc_id from)
                           (newFromBalance from (transferAmount f)) d))))))"
  using assms
  by (simp add: handleTransfer_def passes_checks_def Let_def transfer_today_def
      transfer_history_rows_def transfer_row_def split: option.splits)

lemma handleTransfer_unchecked:
  assumes "\<not> (\<exists>from to. passes_checks f accs from to)"
  shows "snd (handleTransfer env fc u now f accs d) = (accs, d)"
    and "\<forall>m. fst (handleTransfer env fc u now f accs d) \<noteq> Some (toast_success m)"
  using assms
  by (auto simp: handleTransfer_def passes_checks_def Let_def split: option.splits)

lemma filter_update_other:
  "i \<noteq> j \<Longrightarrow>
   filter (\<lambda>a. acc_id a = i) (map (\<lambda>a. if acc_id a = j then a\<lparr>current_balance := b\<rparr> else a) xs)
   = filter (\<lambda>a. acc_id a = i) xs"
  by (induction xs) auto

lemma select_update_other:
  assumes "i \<noteq> j"
  shows "select_current_balance (update_current_balance err j b d) i = select_current_balance d i"
proof (cases err)
  case None
  have "accounts (update_current_balance None j b d)
        = map (\<lambda>a. if acc_id a = j then a\<lparr>current_balance := balance_column d b\<rparr> else a)
            (accounts d)"
    by (simp add: update_current_balance_def)
  then show ?thesis
    unfolding None select_current_balance_def by (simp only: filter_update_other [OF assms])
next
  case (Some msg)
  then show ?thesis by (simp add: update_current_balance_def)
qed

lemma select_insert_transfer [simp]:
  "select_current_balance (insert_transfer err row d) i = select_current_balance d i"
  by (simp add: select_current_balance_def insert_transfer_def split: option.splits)

lemma column_insert_transfer [simp]:
  "balance_column (insert_transfer err row d) = balance_column d"
  by (simp add: insert_transfer_def split: option.splits)

lemma select_db1:
  "select_current_balance db1 ''a1'' = Some (Fin 1000)"
  "select_current_balance db1 ''a2'' = Some (Fin 500)"
  "select_current_balance db1 ''a3'' = Some (Fin 200)"
  "select_current_balance db1 ''a4'' = Some (Fin 300)"
  by (simp_all add: select_current_balance_def db1_def accs1_def acct_checking_def acct_savings_def
      acct_card_def acct_closed_def)

lemma checks_12: "a \<noteq> NaN \<Longrightarrow> \<not> js_le a (Fin 0) \<Longrightarrow>
    passes_checks (form1 ''a1'' ''a2'' a) accs1 acct_checking acct_savings"
  by (simp add: passes_checks_def form1_def accs1_def acct_checking_def acct_savings_def
      acct_card_def acct_closed_def isNaN_def)

lemma checks_13: "a \<noteq> NaN \<Longrightarrow> \<not> js_le a (Fin 0) \<Longrightarrow>
    passes_checks (form1 ''a1'' ''a3'' a) accs1 acct_checking acct_card"
  by (simp add: passes_checks_def form1_def accs1_def acct_checking_def acct_savings_def
      acct_card_def acct_closed_def isNaN_def)

lemma checks_42: "a \<noteq> NaN \<Longrightarrow> \<not> js_le a (Fin 0) \<Longrightarrow>
    passes_checks (form1 ''a4'' ''a2'' a) accs1 acct_closed acct_savings"
  by (simp add: passes_checks_def form1_def accs1_def acct_checking_def acct_savings_def
      acct_card_def acct_closed_def isNaN_def)

lemma handleTransfer_success:
  assumes "handleTransfer env fc u now f accs d = (Some (toast_success m), accs', d')"
  shows "\<exists>from to. passes_checks f accs from to \<and> fromErr env = None \<and> toErr env = None"
proof (cases "\<exists>from to. passes_checks f accs from to")
  case False
  from handleTransfer_unchecked(2) [OF False, of env fc u now d] assms show ?thesis by simp
next
  case True
  then obtain src dst where pc: "passes_checks f accs src dst" by blast
  show ?thesis
    using assms pc handleTransfer_checked [OF pc, of env fc u now d]
    by (auto split: option.splits)
qed

lemma transfer_store_balances:
  assumes pc: "passes_checks f accs from to"
    and "fromErr env = None" and "toErr env = None"
    and sf: "select_current_balance d (transferFromId f) = Some sb"
    and st: "select_current_balance d (transferToId f) = Some tb"
  shows "select_current_balance (snd (snd (handleTransfer env fc u now f accs d))) (transferFromId f)
           = Some (balance_column d (newFromBalance from (transferAmount f)))"
    and "select_current_balance (snd (snd (handleTransfer env fc u now f accs d))) (transferToId f)
           = Some (balance_column d (newToBalance to (transferAmount f)))"
proof -
  have idf: "acc_id from = transferFromId f" and idt: "acc_id to = transferToId f"
    using pc by (auto simp: passes_checks_def dest: find_acc_id)
  have ne: "transferFromId f \<noteq> transferToId f" using pc by (simp add: passes_checks_def)
  let ?d1 = "update_current_balance None (transferFromId f) (newFromBalance from (transferAmount f)) d"
  have s1: "select_current_balance ?d1 (transferFromId f)
            = Some (balance_column d (newFromBalance from (transferAmount f)))"
    by (rule select_after_update [OF sf])
  have s2: "select_current_balance ?d1 (transferToId f) = Some tb"
    using ne st by (simp add: select_update_other)
  show "select_current_balance (snd (snd (handleTransfer env fc u now f accs d))) (transferFromId f)
           = Some (balance_column d (newFromBalance from (transferAmount f)))"
    using assms(2,3) ne s1
    by (simp add: handleTransfer_checked [OF pc] idf idt select_update_other)
  show "select_current_balance (snd (snd (handleTransfer env fc u now f accs d))) (transferToId f)
           = Some (balance_column d (newToBalance to (transferAmount f)))"
    using assms(2,3) select_after_update [OF s2]
    by (simp add: handleTransfer_checked [OF pc] idf idt)
qed

lemma find_accs1:
  "find (\<lambda>a. acc_id a = ''a1'') accs1 = Some acct_checking"
  "find (\<lambda>a. acc_id a = ''a2'') accs1 = Some acct_savings"
  "find (\<lambda>a. acc_id a = ''a3'') accs1 = Some acct_card"
  "find (\<lambda>a. acc_id a = ''a4'') accs1 = Some acct_closed"
  by (simp_all add: accs1_def acct_checking_def acct_savings_def acct_card_def acct_closed_def)

lemma transfer_ok_simps [simp]:
  "fromErr transfer_ok = None" "toErr transfer_ok = None"
  "historyErr transfer_ok = None" "transferErr transfer_ok = None"
  by (simp_all add: transfer_ok_def)

lemma transfer_to_fails_simps [simp]:
  "fromErr transfer_to_fails = None" "toErr transfer_to_fails = Some ''timeout''"
  "historyErr transfer_to_fails = None" "transferErr transfer_to_fails = None"
  by (simp_all add: transfer_to_fails_def)

lemma form1_simps [simp]:
  "transferFromId (form1 i j a) = i" "transferToId (form1 i j a) = j"
  "transferAmount (form1 i j a) = a" "transferNote (form1 i j a) = []"
  "transferDate (form1 i j a) = ''2026-01-15''"
  by (simp_all add: form1_def)

lemma acct_simps [simp]:
  "acc_id acct_checking = ''a1''" "current_balance acct_checking = Fin 1000"
  "account_type acct_checking = bank_account" "account_name acct_checking = ''Checking''"
  "currency acct_checking = ''PHP''"
  "acc_id acct_savings = ''a2''" "current_balance acct_savings = Fin 500"
  "account_type acct_savings = bank_account" "account_name acct_savings = ''Savings''"
  "currency acct_savings = ''PHP''"
  "acc_id acct_card = ''a3''" "current_balance acct_card = Fin 200"
  "account_type acct_card = credit_card" "account_name acct_card = ''Visa''"
  "currency acct_card = ''PHP''"
  "acc_id acct_closed = ''a4''" "current_balance acct_closed = Fin 300"
  "account_type acct_closed = bank_account" "account_name acct_closed = ''Old''"
  "currency acct_closed = ''PHP''" "status acct_closed = status_closed"
  by (simp_all add: acct_checking_def acct_savings_def acct_card_def acct_closed_def)

lemma run_12:
  assumes "a \<noteq> NaN" and "\<not> js_le a (Fin 0)"
  shows "handleTransfer transfer_ok fmt ''u1'' ''2026-01-20'' (form1 ''a1'' ''a2'' a) accs1 db1 =
     (Some (toast_success ''Transferred PHP from Checking to Savings''),
      fst (snd (handleTransfer transfer_ok fmt ''u1'' ''2026-01-20'' (form1 ''a1'' ''a2'' a) accs1 db1)),
      snd (snd (handleTransfer transfer_ok fmt ''u1'' ''2026-01-20'' (form1 ''a1'' ''a2'' a) accs1 db1)))"
  by (simp add: handleTransfer_checked [OF checks_12 [OF assms]] fmt_def)

lemma run_13:
  assumes "a \<noteq> NaN" and "\<not> js_le a (Fin 0)"
  shows "handleTransfer transfer_ok fmt ''u1'' ''2026-01-20'' (form1 ''a1'' ''a3'' a) accs1 db1 =
     (Some (toast_success ''Transferred PHP from Checking to Visa''),
      fst (snd (handleTransfer transfer_ok fmt ''u1'' ''2026-01-20'' (form1 ''a1'' ''a3'' a) accs1 db1)),
      snd (snd (handleTransfer transfer_ok fmt ''u1'' ''2026-01-20'' (form1 ''a1'' ''a3'' a) accs1 db1)))"
  by (simp add: handleTransfer_checked [OF checks_13 [OF assms]] fmt_def)

lemma journal_db1 [simp]: "journal db1 = []" "account_balance_history db1 = []"
  "account_transfers db1 = []" "balance_column db1 = cents_column"
  by (simp_all add: db1_def)

lemma journal_update [simp]:
  "journal (update_current_balance None i b d) = journal d @ [UpdateBalance i b]"
  "account_balance_history (update_current_balance err i b d) = account_balance_history d"
  "account_transfers (update_current_balance err i b d) = account_transfers d"
  by (simp_all add: update_current_balance_def split: option.splits)

lemma journal_insert_history [simp]:
  "journal (insert_history None rows d) = journal d @ [InsertHistory rows]"
  "journal (insert_history (Some e) rows d) = journal d"
  "account_balance_history (insert_history None rows d)
     = account_balance_history d @ map (\<lambda>e. e\<lparr>balance := balance_column d (balance e)\<rparr>) rows"
  "account_balance_history (insert_history (Some e) rows d) = account_balance_history d"
  "account_transfers (insert_history err rows d) = account_transfers d"
  by (simp_all add: insert_history_def split: option.splits)

lemma journal_insert_transfer [simp]:
  "journal (insert_transfer None row d) = journal d @ [InsertTransfer row]"
  "journal (insert_transfer (Some e) row d) = journal d"
  "account_balance_history (insert_transfer err row d) = account_balance_history d"
  "account_transfers (insert_transfer None row d) = account_transfers d @ [row]"
  "account_transfers (insert_transfer (Some e) row d) = account_transfers d"
  by (simp_all add: insert_transfer_def split: option.splits)


lemma find_accs_stale:
  "find (\<lambda>a. acc_id a = ''a1'') accs_stale = Some acct_checking"
  "find (\<lambda>a. acc_id a = ''a2'') accs_stale = Some (acct_savings\<lparr>current_balance := Fin 400\<rparr>)"
  by (simp_all add: accs_stale_def acct_checking_def acct_savings_def)

lemma example_cents:
  "Fin 1000 = cents 100000" "Fin 500 = cents 50000" "Fin 50 = cents 5000"
  "Fin 950 = cents 95000" "Fin 550 = cents 55000"
  by (simp_all add: column_eval)

lemma example_columns:
  "cents_column (Fin 950) = Fin 950" "cents_column (Fin 550) = Fin 550"
  "cents_column (Fin 150) = Fin 150" "cents_column (Fin 250) = Fin 250"
  "cents_column (Fin 450) = Fin 450" "cents_column (Fin 1234) = Fin 1234"
  by (simp_all add: column_eval)

lemma example_sums:
  "js_sub (Fin 1000) (Fin 50) = Fin 950" "js_add (Fin 500) (Fin 50) = Fin 550"
  "js_sub (Fin 200) (Fin 50) = Fin 150" "js_sub (Fin 300) (Fin 50) = Fin 250"
  "js_add (Fin 400) (Fin 50) = Fin 450"
  by (simp_all add: fl_eval)

section \<open>The balances a transfer writes\<close>

text \<open>
  Claim C2, as amended. After a transfer that \<^verbatim>\<open>handleTransfer\<close> reports as done, between
  two accounts that each have one row in the store, the number written for the source is
  the balance the page held for it minus the amount, whatever its type; the number
  written for the destination is the balance the page held for it plus the amount for a
  bank account and minus the amount for a credit card. Both are sums of the number
  format, which the code does not round to cents. The page's own list of accounts gets
  these two numbers, and the balances in the store are what the column makes of them.
  When the destination is a bank account, the page held the balances of the store, \<open>S\<close>
  and \<open>T\<close> cents, the amount is \<open>K\<close> cents, these and the new balances are below \<open>10\<^sup>1\<^sup>2\<close>
  cents in absolute value and the column rounds to the cent, the balances in the store
  are \<open>S - K\<close> and \<open>T + K\<close> cents afterwards, so that their sum is what it was.
\<close>

theorem transfer_new_balances:
  assumes ok: "handleTransfer env fc u now f accs d = (Some (toast_success m), accs', d')"
    and sf: "select_current_balance d (transferFromId f) = Some sb"
    and st: "select_current_balance d (transferToId f) = Some tb"
  shows "\<exists>from to.
           find (\<lambda>a. acc_id a = transferFromId f) accs = Some from
         \<and> find (\<lambda>a. acc_id a = transferToId f) accs = Some to
         \<and> select_current_balance d' (transferFromId f)
             = Some (balance_column d (js_sub (current_balance from) (transferAmount f)))
         \<and> select_current_balance d' (transferToId f)
             = Some (balance_column d
                       (if account_type to = credit_card
                        then js_sub (current_balance to) (transferAmount f)
                        else js_add (current_balance to) (transferAmount f)))
         \<and> accs' = map (\<lambda>a. if acc_id a = transferFromId f
                             then a\<lparr>current_balance :=
                                     js_sub (current_balance from) (transferAmount f)\<rparr>
                             else if acc_id a = transferToId f
                             then a\<lparr>current_balance :=
                                     (if account_type to = credit_card
                                      then js_sub (current_balance to) (transferAmount f)
                                      else js_add (current_balance to) (transferAmount f))\<rparr>
                             else a) accs
         \<and> (account_type to = bank_account \<and> rounds_to_cents (balance_column d)
              \<and> current_balance from = sb \<and> current_balance to = tb
              \<and> sb = cents S \<and> tb = cents T \<and> transferAmount f = cents K
              \<and> \<bar>S\<bar> < 10 ^ 12 \<and> \<bar>T\<bar> < 10 ^ 12 \<and> \<bar>K\<bar> < 10 ^ 12
              \<and> \<bar>S - K\<bar> < 10 ^ 12 \<and> \<bar>T + K\<bar> < 10 ^ 12
            \<longrightarrow> select_current_balance d' (transferFromId f) = Some (cents (S - K))
              \<and> select_current_balance d' (transferToId f) = Some (cents (T + K))
              \<and> (S - K) + (T + K) = S + T)"
proof -
  from handleTransfer_success [OF ok] obtain src dst
    where pc: "passes_checks f accs src dst" and e1: "fromErr env = None" and e2: "toErr env = None"
    by blast
  have d': "d' = snd (snd (handleTransfer env fc u now f accs d))" by (simp add: ok)
  have idf: "acc_id src = transferFromId f" and idt: "acc_id dst = transferToId f"
    using pc by (auto simp: passes_checks_def dest: find_acc_id)
  have "accs' = fst (snd (handleTransfer env fc u now f accs d))" by (simp add: ok)
  also have "\<dots> = map (\<lambda>a. if acc_id a = acc_id src
                             then a\<lparr>current_balance := newFromBalance src (transferAmount f)\<rparr>
                             else if acc_id a = acc_id dst
                             then a\<lparr>current_balance := newToBalance dst (transferAmount f)\<rparr>
                             else a) accs"
    using e1 e2 by (simp add: handleTransfer_checked [OF pc])
  finally have a': "accs' = map (\<lambda>a. if acc_id a = transferFromId f
                             then a\<lparr>current_balance := newFromBalance src (transferAmount f)\<rparr>
                             else if acc_id a = transferToId f
                             then a\<lparr>current_balance := newToBalance dst (transferAmount f)\<rparr>
                             else a) accs"
    unfolding idf idt .
  have b1: "select_current_balance d' (transferFromId f)
            = Some (balance_column d (newFromBalance src (transferAmount f)))"
    unfolding d' by (rule transfer_store_balances(1) [OF pc e1 e2 sf st])
  have b2: "select_current_balance d' (transferToId f)
            = Some (balance_column d (newToBalance dst (transferAmount f)))"
    unfolding d' by (rule transfer_store_balances(2) [OF pc e1 e2 sf st])
  have fs: "find (\<lambda>a. acc_id a = transferFromId f) accs = Some src"
    and ft: "find (\<lambda>a. acc_id a = transferToId f) accs = Some dst"
    using pc by (simp_all add: passes_checks_def)
  have cons: "select_current_balance d' (transferFromId f) = Some (cents (S - K))
              \<and> select_current_balance d' (transferToId f) = Some (cents (T + K))
              \<and> (S - K) + (T + K) = S + T"
    if h: "account_type dst = bank_account \<and> rounds_to_cents (balance_column d)
              \<and> current_balance src = sb \<and> current_balance dst = tb
              \<and> sb = cents S \<and> tb = cents T \<and> transferAmount f = cents K
              \<and> \<bar>S\<bar> < 10 ^ 12 \<and> \<bar>T\<bar> < 10 ^ 12 \<and> \<bar>K\<bar> < 10 ^ 12
              \<and> \<bar>S - K\<bar> < 10 ^ 12 \<and> \<bar>T + K\<bar> < 10 ^ 12"
  proof -
    from h have r: "rounds_to_cents (balance_column d)"
      and S: "\<bar>S\<bar> < 10 ^ 12" and T: "\<bar>T\<bar> < 10 ^ 12" and K: "\<bar>K\<bar> < 10 ^ 12"
      and SK: "\<bar>S - K\<bar> < 10 ^ 12" and TK: "\<bar>T + K\<bar> < 10 ^ 12"
      by blast+
    have n1: "newFromBalance src (transferAmount f) = js_sub (cents S) (cents K)"
      using h by (simp add: newFromBalance_def)
    have n2: "newToBalance dst (transferAmount f) = js_add (cents T) (cents K)"
      using h by (simp add: newToBalance_def)
    show ?thesis
      unfolding b1 b2 n1 n2
      by (simp only: column_cents_minus [OF r S K SK] column_cents_plus [OF r T K TK]) simp
  qed
  show ?thesis
    apply (rule exI [of _ src], rule exI [of _ dst])
    using fs ft b1 b2 cons a' by (simp add: newFromBalance_def newToBalance_def)
qed

theorem transfer_new_balances_witness:
  "select_current_balance db1 ''a1'' = Some (cents 100000)
   \<and> select_current_balance db1 ''a2'' = Some (cents 50000)
   \<and> select_current_balance db1 ''a3'' = Some (Fin 200)
   \<and> handleTransfer transfer_ok fmt ''u1'' ''2026-01-20'' (form1 ''a1'' ''a2'' (cents 5000)) accs1 db1 =
       (Some (toast_success ''Transferred PHP from Checking to Savings''),
        fst (snd (handleTransfer transfer_ok fmt ''u1'' ''2026-01-20''
                    (form1 ''a1'' ''a2'' (cents 5000)) accs1 db1)),
        snd (snd (handleTransfer transfer_ok fmt ''u1'' ''2026-01-20''
                    (form1 ''a1'' ''a2'' (cents 5000)) accs1 db1)))
   \<and> account_type acct_savings = bank_account \<and> rounds_to_cents (balance_column db1)
   \<and> current_balance acct_checking = cents 100000 \<and> current_balance acct_savings = cents 50000
   \<and> \<bar>100000 :: int\<bar> < 10 ^ 12 \<and> \<bar>50000 :: int\<bar> < 10 ^ 12 \<and> \<bar>5000 :: int\<bar> < 10 ^ 12
   \<and> \<bar>100000 - 5000 :: int\<bar> < 10 ^ 12 \<and> \<bar>50000 + 5000 :: int\<bar> < 10 ^ 12
   \<and> select_current_balance
        (snd (snd (handleTransfer transfer_ok fmt ''u1'' ''2026-01-20''
           (form1 ''a1'' ''a2'' (cents 5000)) accs1 db1))) ''a1'' = Some (cents 95000)
   \<and> select_current_balance
        (snd (snd (handleTransfer transfer_ok fmt ''u1'' ''2026-01-20''
           (form1 ''a1'' ''a2'' (cents 5000)) accs1 db1))) ''a2'' = Some (cents 55000)
   \<and> cents 95000 = Fin 950 \<and> cents 55000 = Fin 550
   \<and> select_current_balance
        (snd (snd (handleTransfer transfer_ok fmt ''u1'' ''2026-01-20'' (form1 ''a1'' ''a3'' (Fin 50))
           accs1 db1))) ''a1'' = Some (Fin 950)
   \<and> select_current_balance
        (snd (snd (handleTransfer transfer_ok fmt ''u1'' ''2026-01-20'' (form1 ''a1'' ''a3'' (Fin 50))
           accs1 db1))) ''a3'' = Some (Fin 150)"
proof -
  let ?f = "form1 ''a1'' ''a2'' (cents 5000)"
  let ?r = "handleTransfer transfer_ok fmt ''u1'' ''2026-01-20'' ?f accs1 db1"
  let ?f3 = "form1 ''a1'' ''a3'' (Fin 50)"
  let ?r3 = "handleTransfer transfer_ok fmt ''u1'' ''2026-01-20'' ?f3 accs1 db1"
  note c = example_cents [symmetric]
  have r: "?r = (Some (toast_success ''Transferred PHP from Checking to Savings''),
                 fst (snd ?r), snd (snd ?r))"
    unfolding c by (rule run_12) simp_all
  have r3: "?r3 = (Some (toast_success ''Transferred PHP from Checking to Visa''),
                   fst (snd ?r3), snd (snd ?r3))"
    by (rule run_13) simp_all
  have s1: "select_current_balance db1 ''a1'' = Some (cents 100000)"
    and s2: "select_current_balance db1 ''a2'' = Some (cents 50000)"
    unfolding c by (rule select_db1)+
  have sf: "select_current_balance db1 (transferFromId ?f) = Some (cents 100000)"
    and st: "select_current_balance db1 (transferToId ?f) = Some (cents 50000)"
    using s1 s2 by simp_all
  have sf3: "select_current_balance db1 (transferFromId ?f3) = Some (Fin 1000)"
    and st3: "select_current_balance db1 (transferToId ?f3) = Some (Fin 200)"
    by (simp_all add: select_db1)
  have t: "account_type acct_savings = bank_account" by simp
  have rc: "rounds_to_cents (balance_column db1)"
    by (simp add: rounds_to_cents_example)
  have b1: "current_balance acct_checking = cents 100000"
    and b2: "current_balance acct_savings = cents 50000"
    unfolding c by simp_all
  have m: "\<bar>100000 :: int\<bar> < 10 ^ 12" "\<bar>50000 :: int\<bar> < 10 ^ 12" "\<bar>5000 :: int\<bar> < 10 ^ 12"
    "\<bar>100000 - 5000 :: int\<bar> < 10 ^ 12" "\<bar>50000 + 5000 :: int\<bar> < 10 ^ 12"
    by simp_all
  have a: "transferAmount ?f = cents 5000" by simp
  from transfer_new_balances [OF r sf st, of 100000 50000 5000] obtain src dst
    where fs: "find (\<lambda>a. acc_id a = transferFromId ?f) accs1 = Some src"
      and ft: "find (\<lambda>a. acc_id a = transferToId ?f) accs1 = Some dst"
      and imp: "account_type dst = bank_account \<and> rounds_to_cents (balance_column db1)
              \<and> current_balance src = cents 100000 \<and> current_balance dst = cents 50000
              \<and> cents 100000 = cents 100000 \<and> cents 50000 = cents 50000
              \<and> transferAmount ?f = cents 5000
              \<and> \<bar>100000 :: int\<bar> < 10 ^ 12 \<and> \<bar>50000 :: int\<bar> < 10 ^ 12 \<and> \<bar>5000 :: int\<bar> < 10 ^ 12
              \<and> \<bar>100000 - 5000 :: int\<bar> < 10 ^ 12 \<and> \<bar>50000 + 5000 :: int\<bar> < 10 ^ 12
            \<longrightarrow> select_current_balance (snd (snd ?r)) (transferFromId ?f) = Some (cents (100000 - 5000))
              \<and> select_current_balance (snd (snd ?r)) (transferToId ?f) = Some (cents (50000 + 5000))
              \<and> (100000 - 5000) + (50000 + 5000) = (100000 + 50000 :: int)"
    by blast
  have src: "src = acct_checking" and dst: "dst = acct_savings"
    using fs ft by (simp_all add: find_accs1)
  have w: "select_current_balance (snd (snd ?r)) (transferFromId ?f) = Some (cents (100000 - 5000))
         \<and> select_current_balance (snd (snd ?r)) (transferToId ?f) = Some (cents (50000 + 5000))"
    using imp t rc b1 b2 a m unfolding src dst by blast
  have w1: "select_current_balance (snd (snd ?r)) ''a1'' = Some (cents 95000)"
    and w2: "select_current_balance (snd (snd ?r)) ''a2'' = Some (cents 55000)"
    using w by simp_all
  from transfer_new_balances [OF r3 sf3 st3] obtain src3 dst3
    where fs3: "find (\<lambda>a. acc_id a = transferFromId ?f3) accs1 = Some src3"
      and ft3: "find (\<lambda>a. acc_id a = transferToId ?f3) accs1 = Some dst3"
      and x1: "select_current_balance (snd (snd ?r3)) (transferFromId ?f3)
             = Some (balance_column db1 (js_sub (current_balance src3) (transferAmount ?f3)))"
      and x2: "select_current_balance (snd (snd ?r3)) (transferToId ?f3)
             = Some (balance_column db1
                       (if account_type dst3 = credit_card
                        then js_sub (current_balance dst3) (transferAmount ?f3)
                        else js_add (current_balance dst3) (transferAmount ?f3)))"
    by blast
  have src3: "src3 = acct_checking" and dst3: "dst3 = acct_card"
    using fs3 ft3 by (simp_all add: find_accs1)
  have w3: "select_current_balance (snd (snd ?r3)) ''a1'' = Some (Fin 950)"
    using x1 unfolding src3 by (simp add: example_sums example_columns del: js_sub.simps)
  have w4: "select_current_balance (snd (snd ?r3)) ''a3'' = Some (Fin 150)"
    using x2 unfolding dst3 by (simp add: example_sums example_columns del: js_sub.simps)
  have c1: "cents 95000 = Fin 950" "cents 55000 = Fin 550"
    by (simp_all add: example_cents)
  have s3: "select_current_balance db1 ''a3'' = Some (Fin 200)" by (rule select_db1)
  show ?thesis
    by (intro conjI) (rule s1 s2 s3 r t rc b1 b2 m w1 w2 c1 w3 w4)+
qed

text \<open>
  As stated, with the source balance rounded to two decimals by the transfer, the claim
  fails: for a transfer of \<^verbatim>\<open>0.001\<close> out of an account at 1000.00 the code sends the number
  999.999 to the store and puts it into the page's list, while \<open>round2\<close> gives 1000.00.
  Whatever rounding there is, is the column's.
\<close>

theorem transfer_new_balances_counterexample:
  "fst (handleTransfer transfer_ok fmt ''u1'' ''2026-01-20'' (form1 ''a1'' ''a2'' tenth_cent)
      accs1 db1) = Some (toast_success ''Transferred PHP from Checking to Savings'')
   \<and> journal (snd (snd (handleTransfer transfer_ok fmt ''u1'' ''2026-01-20''
        (form1 ''a1'' ''a2'' tenth_cent) accs1 db1))) ! 0
      = UpdateBalance ''a1'' (Fin (4398042113057489 / 4398046511104))
   \<and> map current_balance (fst (snd (handleTransfer transfer_ok fmt ''u1'' ''2026-01-20''
        (form1 ''a1'' ''a2'' tenth_cent) accs1 db1)))
      = [Fin (4398042113057489 / 4398046511104), Fin (2199027653598511 / 4398046511104),
         Fin 200, Fin 300]
   \<and> round2 (js_sub (Fin 1000) tenth_cent) = Fin 1000
   \<and> Fin (4398042113057489 / 4398046511104) \<noteq> Fin 1000"
proof -
  let ?r = "handleTransfer transfer_ok fmt ''u1'' ''2026-01-20'' (form1 ''a1'' ''a2'' tenth_cent)
              accs1 db1"
  have v: "tenth_cent \<noteq> NaN" "\<not> js_le tenth_cent (Fin 0)"
    by (simp_all add: tenth_cent_def fl_eval)
  have pc: "passes_checks (form1 ''a1'' ''a2'' tenth_cent) accs1 acct_checking acct_savings"
    by (rule checks_12 [OF v])
  have n1: "newFromBalance acct_checking tenth_cent = Fin (4398042113057489 / 4398046511104)"
    by (simp add: newFromBalance_def tenth_cent_def fl_eval)
  have n2: "newToBalance acct_savings tenth_cent = Fin (2199027653598511 / 4398046511104)"
    by (simp add: newToBalance_def tenth_cent_def fl_eval)
  have f: "fst ?r = Some (toast_success ''Transferred PHP from Checking to Savings'')"
    by (simp add: handleTransfer_checked [OF pc] fmt_def)
  have j: "journal (snd (snd ?r)) ! 0 = UpdateBalance ''a1'' (Fin (4398042113057489 / 4398046511104))"
    by (simp add: handleTransfer_checked [OF pc] n1)
  have p: "map current_balance (fst (snd ?r))
      = [Fin (4398042113057489 / 4398046511104), Fin (2199027653598511 / 4398046511104),
         Fin 200, Fin 300]"
    by (simp add: handleTransfer_checked [OF pc]) (simp add: accs1_def n1 n2)
  have r: "round2 (js_sub (Fin 1000) tenth_cent) = Fin 1000"
    by (simp add: round2_def tenth_cent_def fl_eval)
  have ne: "Fin (4398042113057489 / 4398046511104) \<noteq> Fin 1000" by simp
  show ?thesis
    by (intro conjI) (rule f j p r ne)+
qed

text \<open>
  The sum of the two balances in the store is kept only when the page holds the balances
  of the store. With a page that shows 400.00 for an account that holds 500.00, a transfer
  of 50.00 into it from the account at 1000.00 leaves 950.00 and 450.00 in the store: the
  sum goes from 1500.00 to 1400.00.
\<close>

lemma transfer_stale_page:
  "select_current_balance db1 ''a1'' = Some (Fin 1000)
   \<and> select_current_balance db1 ''a2'' = Some (Fin 500)
   \<and> fst (handleTransfer transfer_ok fmt ''u1'' ''2026-01-20'' (form1 ''a1'' ''a2'' (Fin 50))
        accs_stale db1) = Some (toast_success ''Transferred PHP from Checking to Savings'')
   \<and> select_current_balance
        (snd (snd (handleTransfer transfer_ok fmt ''u1'' ''2026-01-20'' (form1 ''a1'' ''a2'' (Fin 50))
           accs_stale db1))) ''a1'' = Some (Fin 950)
   \<and> select_current_balance
        (snd (snd (handleTransfer transfer_ok fmt ''u1'' ''2026-01-20'' (form1 ''a1'' ''a2'' (Fin 50))
           accs_stale db1))) ''a2'' = Some (Fin 450)"
proof -
  let ?f = "form1 ''a1'' ''a2'' (Fin 50)"
  let ?stale = "acct_savings\<lparr>current_balance := Fin 400\<rparr>"
  let ?r = "handleTransfer transfer_ok fmt ''u1'' ''2026-01-20'' ?f accs_stale db1"
  have pc: "passes_checks ?f accs_stale acct_checking ?stale"
    by (simp add: passes_checks_def find_accs_stale isNaN_def)
  have f: "fst ?r = Some (toast_success ''Transferred PHP from Checking to Savings'')"
    by (simp add: handleTransfer_checked [OF pc] fmt_def)
  have sf: "select_current_balance db1 (transferFromId ?f) = Some (Fin 1000)"
    and st: "select_current_balance db1 (transferToId ?f) = Some (Fin 500)"
    by (simp_all add: select_db1)
  have n1: "balance_column db1 (newFromBalance acct_checking (transferAmount ?f)) = Fin 950"
    by (simp add: newFromBalance_def example_sums example_columns del: js_sub.simps)
  have n2: "balance_column db1 (newToBalance ?stale (transferAmount ?f)) = Fin 450"
    by (simp add: newToBalance_def acct_savings_def example_sums example_columns del: js_add.simps)
  have w1: "select_current_balance (snd (snd ?r)) ''a1'' = Some (Fin 950)"
    using transfer_store_balances(1) [OF pc transfer_ok_simps(1,2) sf st, of fmt "''u1''" "''2026-01-20''"]
    unfolding n1 by simp
  have w2: "select_current_balance (snd (snd ?r)) ''a2'' = Some (Fin 450)"
    using transfer_store_balances(2) [OF pc transfer_ok_simps(1,2) sf st, of fmt "''u1''" "''2026-01-20''"]
    unfolding n2 by simp
  show ?thesis
    by (intro conjI) (rule select_db1 f w1 w2)+
qed

section \<open>The order of the writes of a transfer\<close>



section \<open>The checks before a transfer\<close>

text \<open>
  Claim C3. The claim asks that a transfer out of an account that is not active is
  rejected before any write. \<^verbatim>\<open>handleTransfer\<close> does not look at the status: a transfer
  of 50.00 from the closed account to an active one is reported as done, and the store
  applies both balance updates, the history rows and the transfer row.
\<close>

theorem transfer_from_closed_account:
  "find (\<lambda>a. acc_id a = ''a4'') accs1 = Some acct_closed
   \<and> status acct_closed = status_closed
   \<and> fst (handleTransfer transfer_ok fmt ''u1'' ''2026-01-20'' (form1 ''a4'' ''a2'' (Fin 50)) accs1 db1)
       = Some (toast_success ''Transferred PHP from Old to Savings'')
   \<and> journal (snd (snd (handleTransfer transfer_ok fmt ''u1'' ''2026-01-20''
        (form1 ''a4'' ''a2'' (Fin 50)) accs1 db1)))
      = [UpdateBalance ''a4'' (Fin 250), UpdateBalance ''a2'' (Fin 550),
         InsertHistory (transfer_history_rows ''u1'' ''2026-01-15'' (form1 ''a4'' ''a2'' (Fin 50))
                          acct_closed acct_savings),
         InsertTransfer (transfer_row ''u1'' ''2026-01-15'' (form1 ''a4'' ''a2'' (Fin 50))
                          acct_closed acct_savings)]"
proof -
  have pc: "passes_checks (form1 ''a4'' ''a2'' (Fin 50)) accs1 acct_closed acct_savings"
    by (rule checks_42) simp_all
  have n: "newFromBalance acct_closed (Fin 50) = Fin 250"
    "newToBalance acct_savings (Fin 50) = Fin 550"
    by (simp_all add: newFromBalance_def newToBalance_def example_sums del: js_sub.simps js_add.simps)
  show ?thesis
    by (simp add: handleTransfer_checked [OF pc] find_accs1 fmt_def n transfer_today_def
        transfer_history_rows_def transfer_row_def)
qed

text \<open>
  The amount check is \<^verbatim>\<open>isNaN(amount) || amount <= 0\<close>, which lets \<^verbatim>\<open>Infinity\<close> through.
\<close>

lemma transfer_infinite_amount:
  "\<not> isFinite PInf
   \<and> fst (handleTransfer transfer_ok fmt ''u1'' ''2026-01-20'' (form1 ''a1'' ''a2'' PInf) accs1 db1)
       = Some (toast_success ''Transferred PHP from Checking to Savings'')
   \<and> take 2 (journal (snd (snd (handleTransfer transfer_ok fmt ''u1'' ''2026-01-20''
        (form1 ''a1'' ''a2'' PInf) accs1 db1))))
      = [UpdateBalance ''a1'' NInf, UpdateBalance ''a2'' PInf]"
proof -
  have pc: "passes_checks (form1 ''a1'' ''a2'' PInf) accs1 acct_checking acct_savings"
    by (rule checks_12) simp_all
  show ?thesis
    by (simp add: handleTransfer_checked [OF pc] fmt_def newFromBalance_def newToBalance_def)
qed

text \<open>
  What \<^verbatim>\<open>handleTransfer\<close> does reject before any write: a missing id, equal ids, an amount
  that is \<^verbatim>\<open>NaN\<close> or not above 0, an account the page does not hold, different currencies.
  The page's accounts and the store are then returned as they were.
\<close>

lemma transfer_rejected_no_write:
  assumes "transferFromId f = [] \<or> transferToId f = [] \<or> transferFromId f = transferToId f
         \<or> isNaN (transferAmount f) \<or> js_le (transferAmount f) (Fin 0)
         \<or> find (\<lambda>a. acc_id a = transferFromId f) accs = None
         \<or> find (\<lambda>a. acc_id a = transferToId f) accs = None
         \<or> (\<exists>from to. find (\<lambda>a. acc_id a = transferFromId f) accs = Some from
               \<and> find (\<lambda>a. acc_id a = transferToId f) accs = Some to
               \<and> currency from \<noteq> currency to)"
  shows "snd (handleTransfer env fc u now f accs d) = (accs, d)"
proof -
  have "\<not> (\<exists>from to. passes_checks f accs from to)"
    using assms by (auto simp: passes_checks_def)
  then show ?thesis by (rule handleTransfer_unchecked(1))
qed

section \<open>Balance and history\<close>

lemma posting_history:
  assumes "fetch_error env = None" and "update_error env = None" and "history_error env = None"
    and "select_current_balance d i = Some cur"
  shows "\<exists>e. account_balance_history (updateAccountBalance env d i u x ty op nte)
               = account_balance_history d @ [e]
           \<and> account_id e = i
           \<and> select_current_balance (updateAccountBalance env d i u x ty op nte) i
               = Some (balance e)"
  using assms posting_select [OF assms(1,2,4), of u x ty op nte]
  by (simp add: updateAccountBalance_def Let_def)

lemma posting_history_failure:
  assumes "fetch_error env = None" and "update_error env = None"
    and "history_error env = Some msg"
    and "select_current_balance d i = Some cur"
  shows "select_current_balance (updateAccountBalance env d i u x ty op nte) i
           = Some (balance_column d (round2 (js_add cur (posting_delta ty op x))))
       \<and> account_balance_history (updateAccountBalance env d i u x ty op nte)
           = account_balance_history d"
  using assms posting_select [OF assms(1,2,4), of u x ty op nte]
  by (simp add: updateAccountBalance_def Let_def)

lemma transfer_history:
  assumes pc: "passes_checks f accs from to"
    and e: "fromErr env = None" "toErr env = None" "historyErr env = None"
    and sf: "select_current_balance d (transferFromId f) = Some sb"
    and st: "select_current_balance d (transferToId f) = Some tb"
  shows "\<exists>e1 e2. account_balance_history (snd (snd (handleTransfer env fc u now f accs d)))
                   = account_balance_history d @ [e1, e2]
           \<and> account_id e1 = transferFromId f
           \<and> select_current_balance (snd (snd (handleTransfer env fc u now f accs d)))
                (transferFromId f) = Some (balance e1)
           \<and> account_id e2 = transferToId f
           \<and> select_current_balance (snd (snd (handleTransfer env fc u now f accs d)))
                (transferToId f) = Some (balance e2)"
proof -
  have idf: "acc_id from = transferFromId f" and idt: "acc_id to = transferToId f"
    using pc by (auto simp: passes_checks_def dest: find_acc_id)
  have h: "account_balance_history (snd (snd (handleTransfer env fc u now f accs d)))
           = account_balance_history d
             @ map (\<lambda>e. e\<lparr>balance := balance_column d (balance e)\<rparr>)
                 (transfer_history_rows u (transfer_today f now) f from to)"
    using e by (simp add: handleTransfer_checked [OF pc])
  show ?thesis
    using h transfer_store_balances [OF pc e(1,2) sf st, of fc u now] idf idt
    by (simp add: transfer_history_rows_def)
qed

lemma transfer_destination_failure:
  assumes pc: "passes_checks f accs from to"
    and e: "fromErr env = None" "toErr env = Some msg"
    and sf: "select_current_balance d (transferFromId f) = Some sb"
  shows "select_current_balance (snd (snd (handleTransfer env fc u now f accs d)))
           (transferFromId f) = Some (balance_column d (newFromBalance from (transferAmount f)))
       \<and> account_balance_history (snd (snd (handleTransfer env fc u now f accs d)))
           = account_balance_history d"
proof -
  have idf: "acc_id from = transferFromId f"
    using pc by (auto simp: passes_checks_def dest: find_acc_id)
  show ?thesis
    using e select_after_update [OF sf, of "newFromBalance from (transferAmount f)"]
    by (simp add: handleTransfer_checked [OF pc] idf)
qed

lemma transfer_history_failure:
  assumes pc: "passes_checks f accs from to"
    and e: "fromErr env = None" "toErr env = None" "historyErr env = Some msg"
    and sf: "select_current_balance d (transferFromId f) = Some sb"
    and st: "select_current_balance d (transferToId f) = Some tb"
  shows "select_current_balance (snd (snd (handleTransfer env fc u now f accs d)))
           (transferFromId f) = Some (balance_column d (newFromBalance from (transferAmount f)))
       \<and> select_current_balance (snd (snd (handleTransfer env fc u now f accs d)))
           (transferToId f) = Some (balance_column d (newToBalance to (transferAmount f)))
       \<and> account_balance_history (snd (snd (handleTransfer env fc u now f accs d)))
           = account_balance_history d"
proof -
  have h: "account_balance_history (snd (snd (handleTransfer env fc u now f accs d)))
           = account_balance_history d"
    using e by (simp add: handleTransfer_checked [OF pc])
  show ?thesis
    using h transfer_store_balances [OF pc e(1,2) sf st, of fc u now] by simp
qed

lemma manual_history:
  assumes "\<not> isNaN nb" and "select_current_balance d (acc_id acct) = Some cur"
  shows "\<exists>e. account_balance_history
               (snd (snd (snd (handleBalanceUpdate None None u today nb bnote acct hist d))))
               = account_balance_history d @ [e]
           \<and> account_id e = acc_id acct
           \<and> select_current_balance
               (snd (snd (snd (handleBalanceUpdate None None u today nb bnote acct hist d))))
               (acc_id acct) = Some (balance e)"
  using assms select_after_update [OF assms(2), of nb]
  by (simp add: handleBalanceUpdate_def Let_def)

lemma manual_history_failure:
  assumes "\<not> isNaN nb" and "select_current_balance d (acc_id acct) = Some cur"
  shows "select_current_balance
           (snd (snd (snd (handleBalanceUpdate None (Some msg) u today nb bnote acct hist d))))
           (acc_id acct) = Some (balance_column d nb)
       \<and> account_balance_history
           (snd (snd (snd (handleBalanceUpdate None (Some msg) u today nb bnote acct hist d))))
           = account_balance_history d"
  using assms select_after_update [OF assms(2), of nb]
  by (simp add: handleBalanceUpdate_def Let_def)

lemma fault_simps [simp]:
  "fetch_error history_fails = None" "update_error history_fails = None"
  "history_error history_fails = Some ''timeout''"
  "fromErr transfer_history_fails = None" "toErr transfer_history_fails = None"
  "historyErr transfer_history_fails = Some ''timeout''"
  "transferErr transfer_history_fails = None"
  by (simp_all add: history_fails_def transfer_history_fails_def)

text \<open>
  Claim C5, as amended. When every call to the store succeeds, an expense-linked posting
  and a manual balance correction each append one history row for the account, and a
  transfer appends one row for the source and one for the destination; after the
  operation the balance of the account in the store equals the balance recorded in the row
  appended for it. When a later call fails after a balance update has succeeded, the
  balance stays updated and no history row is appended: after a posting or a manual
  correction whose history insert fails, after a transfer whose update of the destination
  fails, for the source, and after a transfer whose history insert fails, for both
  accounts.
\<close>

theorem balance_matches_history:
  "(fetch_error env = None \<and> update_error env = None \<and> history_error env = None
      \<and> select_current_balance d i = Some cur
    \<longrightarrow> (\<exists>e. account_balance_history (updateAccountBalance env d i u x ty op nte)
                 = account_balance_history d @ [e]
             \<and> account_id e = i
             \<and> select_current_balance (updateAccountBalance env d i u x ty op nte) i
                 = Some (balance e)))
   \<and> (passes_checks f accs from to
      \<and> fromErr tenv = None \<and> toErr tenv = None \<and> historyErr tenv = None
      \<and> select_current_balance d (transferFromId f) = Some sb
      \<and> select_current_balance d (transferToId f) = Some tb
    \<longrightarrow> (\<exists>e1 e2. account_balance_history (snd (snd (handleTransfer tenv fc u now f accs d)))
                     = account_balance_history d @ [e1, e2]
             \<and> account_id e1 = transferFromId f
             \<and> select_current_balance (snd (snd (handleTransfer tenv fc u now f accs d)))
                  (transferFromId f) = Some (balance e1)
             \<and> account_id e2 = transferToId f
             \<and> select_current_balance (snd (snd (handleTransfer tenv fc u now f accs d)))
                  (transferToId f) = Some (balance e2)))
   \<and> (\<not> isNaN nb \<and> select_current_balance d (acc_id acct) = Some cur'
    \<longrightarrow> (\<exists>e. account_balance_history
                 (snd (snd (snd (handleBalanceUpdate None None u today nb bnote acct hist d))))
                 = account_balance_history d @ [e]
             \<and> account_id e = acc_id acct
             \<and> select_current_balance
                 (snd (snd (snd (handleBalanceUpdate None None u today nb bnote acct hist d))))
                 (acc_id acct) = Some (balance e)))
   \<and> (fetch_error env = None \<and> update_error env = None \<and> history_error env = Some msg
      \<and> select_current_balance d i = Some cur
    \<longrightarrow> select_current_balance (updateAccountBalance env d i u x ty op nte) i
           = Some (balance_column d (round2 (js_add cur (posting_delta ty op x))))
       \<and> account_balance_history (updateAccountBalance env d i u x ty op nte)
           = account_balance_history d)
   \<and> (passes_checks f accs from to \<and> fromErr tenv = None \<and> toErr tenv = Some msg
      \<and> select_current_balance d (transferFromId f) = Some sb
    \<longrightarrow> select_current_balance (snd (snd (handleTransfer tenv fc u now f accs d)))
           (transferFromId f) = Some (balance_column d (newFromBalance from (transferAmount f)))
       \<and> account_balance_history (snd (snd (handleTransfer tenv fc u now f accs d)))
           = account_balance_history d)
   \<and> (passes_checks f accs from to
      \<and> fromErr tenv = None \<and> toErr tenv = None \<and> historyErr tenv = Some msg
      \<and> select_current_balance d (transferFromId f) = Some sb
      \<and> select_current_balance d (transferToId f) = Some tb
    \<longrightarrow> select_current_balance (snd (snd (handleTransfer tenv fc u now f accs d)))
           (transferFromId f) = Some (balance_column d (newFromBalance from (transferAmount f)))
       \<and> select_current_balance (snd (snd (handleTransfer tenv fc u now f accs d)))
           (transferToId f) = Some (balance_column d (newToBalance to (transferAmount f)))
       \<and> account_balance_history (snd (snd (handleTransfer tenv fc u now f accs d)))
           = account_balance_history d)
   \<and> (\<not> isNaN nb \<and> select_current_balance d (acc_id acct) = Some cur'
    \<longrightarrow> select_current_balance
           (snd (snd (snd (handleBalanceUpdate None (Some msg) u today nb bnote acct hist d))))
           (acc_id acct) = Some (balance_column d nb)
       \<and> account_balance_history
           (snd (snd (snd (handleBalanceUpdate None (Some msg) u today nb bnote acct hist d))))
           = account_balance_history d)"
  using posting_history [of env d i cur u x ty op nte]
    transfer_history [of f accs "from" to tenv d sb tb fc u now]
    manual_history [of nb d acct cur' u today bnote hist]
    posting_history_failure [of env msg d i cur u x ty op nte]
    transfer_destination_failure [of f accs "from" to tenv msg d sb fc u now]
    transfer_history_failure [of f accs "from" to tenv msg d sb tb fc u now]
    manual_history_failure [of nb d acct cur' msg u today bnote hist]
  by blast

theorem balance_matches_history_witness:
  "fetch_error no_faults = None \<and> update_error no_faults = None \<and> history_error no_faults = None
   \<and> select_current_balance db1 ''a1'' = Some (Fin 1000)
   \<and> passes_checks (form1 ''a1'' ''a2'' (Fin 50)) accs1 acct_checking acct_savings
   \<and> fromErr transfer_ok = None \<and> toErr transfer_ok = None \<and> historyErr transfer_ok = None
   \<and> select_current_balance db1 ''a2'' = Some (Fin 500)
   \<and> \<not> isNaN (Fin 1234)
   \<and> (\<exists>e. account_balance_history
              (updateAccountBalance no_faults db1 ''a1'' ''u1'' (Fin 50) bank_account Add None)
              = account_balance_history db1 @ [e]
          \<and> account_id e = ''a1''
          \<and> select_current_balance
              (updateAccountBalance no_faults db1 ''a1'' ''u1'' (Fin 50) bank_account Add None) ''a1''
              = Some (balance e))
   \<and> (\<exists>e1 e2. account_balance_history
                  (snd (snd (handleTransfer transfer_ok fmt ''u1'' ''2026-01-20''
                     (form1 ''a1'' ''a2'' (Fin 50)) accs1 db1)))
                  = account_balance_history db1 @ [e1, e2]
          \<and> account_id e1 = ''a1''
          \<and> select_current_balance
               (snd (snd (handleTransfer transfer_ok fmt ''u1'' ''2026-01-20''
                  (form1 ''a1'' ''a2'' (Fin 50)) accs1 db1))) ''a1'' = Some (balance e1)
          \<and> account_id e2 = ''a2''
          \<and> select_current_balance
               (snd (snd (handleTransfer transfer_ok fmt ''u1'' ''2026-01-20''
                  (form1 ''a1'' ''a2'' (Fin 50)) accs1 db1))) ''a2'' = Some (balance e2))
   \<and> (\<exists>e. account_balance_history
              (snd (snd (snd (handleBalanceUpdate None None ''u1'' ''2026-01-20'' (Fin 1234) []
                 acct_checking [] db1))))
              = account_balance_history db1 @ [e]
          \<and> account_id e = ''a1''
          \<and> select_current_balance
              (snd (snd (snd (handleBalanceUpdate None None ''u1'' ''2026-01-20'' (Fin 1234) []
                 acct_checking [] db1)))) ''a1'' = Some (balance e))
   \<and> history_error history_fails = Some ''timeout''
   \<and> select_current_balance
        (updateAccountBalance history_fails db1 ''a1'' ''u1'' (Fin 50) bank_account Add None) ''a1''
       = Some (Fin 950)
   \<and> account_balance_history
        (updateAccountBalance history_fails db1 ''a1'' ''u1'' (Fin 50) bank_account Add None)
       = account_balance_history db1
   \<and> toErr transfer_to_fails = Some ''timeout''
   \<and> select_current_balance
        (snd (snd (handleTransfer transfer_to_fails fmt ''u1'' ''2026-01-20''
           (form1 ''a1'' ''a2'' (Fin 50)) accs1 db1))) ''a1'' = Some (Fin 950)
   \<and> account_balance_history
        (snd (snd (handleTransfer transfer_to_fails fmt ''u1'' ''2026-01-20''
           (form1 ''a1'' ''a2'' (Fin 50)) accs1 db1))) = account_balance_history db1
   \<and> historyErr transfer_history_fails = Some ''timeout''
   \<and> select_current_balance
        (snd (snd (handleTransfer transfer_history_fails fmt ''u1'' ''2026-01-20''
           (form1 ''a1'' ''a2'' (Fin 50)) accs1 db1))) ''a2'' = Some (Fin 550)
   \<and> account_balance_history
        (snd (snd (handleTransfer transfer_history_fails fmt ''u1'' ''2026-01-20''
           (form1 ''a1'' ''a2'' (Fin 50)) accs1 db1))) = account_balance_history db1
   \<and> select_current_balance
        (snd (snd (snd (handleBalanceUpdate None (Some ''timeout'') ''u1'' ''2026-01-20'' (Fin 1234) []
           acct_checking [] db1)))) ''a1'' = Some (Fin 1234)
   \<and> account_balance_history
        (snd (snd (snd (handleBalanceUpdate None (Some ''timeout'') ''u1'' ''2026-01-20'' (Fin 1234) []
           acct_checking [] db1)))) = account_balance_history db1"
proof -
  let ?f = "form1 ''a1'' ''a2'' (Fin 50)"
  have pc: "passes_checks ?f accs1 acct_checking acct_savings"
    by (rule checks_12) simp_all
  have n: "\<not> isNaN (Fin 1234)" by (simp add: isNaN_def)
  have v: "balance_column db1 (round2 (js_add (Fin 1000) (posting_delta bank_account Add (Fin 50))))
           = Fin 950"
    by (simp add: posting_delta_def round2_def column_eval)
  have n1: "balance_column db1 (newFromBalance acct_checking (transferAmount ?f)) = Fin 950"
    and n2: "balance_column db1 (newToBalance acct_savings (transferAmount ?f)) = Fin 550"
    by (simp_all add: newFromBalance_def newToBalance_def example_sums example_columns
        del: js_sub.simps js_add.simps)
  have n3: "balance_column db1 (Fin 1234) = Fin 1234"
    by (simp add: example_columns)
  note ok = balance_matches_history [of no_faults db1 "''a1''" "Fin 1000" "''u1''" "Fin 50"
        bank_account Add None ?f accs1 acct_checking acct_savings
        transfer_ok "Fin 1000" "Fin 500" fmt "''2026-01-20''" "Fin 1234" acct_checking "Fin 1000"
        "''2026-01-20''" "[]" "[]" "''timeout''"]
  note hf = balance_matches_history [of history_fails db1 "''a1''" "Fin 1000" "''u1''" "Fin 50"
        bank_account Add None ?f accs1 acct_checking acct_savings
        transfer_history_fails "Fin 1000" "Fin 500" fmt "''2026-01-20''" "Fin 1234" acct_checking
        "Fin 1000" "''2026-01-20''" "[]" "[]" "''timeout''"]
  note tf = balance_matches_history [of no_faults db1 "''a1''" "Fin 1000" "''u1''" "Fin 50"
        bank_account Add None ?f accs1 acct_checking acct_savings
        transfer_to_fails "Fin 1000" "Fin 500" fmt "''2026-01-20''" "Fin 1234" acct_checking
        "Fin 1000" "''2026-01-20''" "[]" "[]" "''timeout''"]
  have a: "fetch_error no_faults = None \<and> update_error no_faults = None
           \<and> history_error no_faults = None
   \<and> select_current_balance db1 ''a1'' = Some (Fin 1000)
   \<and> passes_checks ?f accs1 acct_checking acct_savings
   \<and> fromErr transfer_ok = None \<and> toErr transfer_ok = None \<and> historyErr transfer_ok = None
   \<and> select_current_balance db1 ''a2'' = Some (Fin 500)
   \<and> \<not> isNaN (Fin 1234)"
    using pc n by (simp add: select_db1)
  have b: "(\<exists>e. account_balance_history
              (updateAccountBalance no_faults db1 ''a1'' ''u1'' (Fin 50) bank_account Add None)
              = account_balance_history db1 @ [e]
          \<and> account_id e = ''a1''
          \<and> select_current_balance
              (updateAccountBalance no_faults db1 ''a1'' ''u1'' (Fin 50) bank_account Add None) ''a1''
              = Some (balance e))
   \<and> (\<exists>e1 e2. account_balance_history
                  (snd (snd (handleTransfer transfer_ok fmt ''u1'' ''2026-01-20'' ?f accs1 db1)))
                  = account_balance_history db1 @ [e1, e2]
          \<and> account_id e1 = ''a1''
          \<and> select_current_balance
               (snd (snd (handleTransfer transfer_ok fmt ''u1'' ''2026-01-20'' ?f accs1 db1)))
               ''a1'' = Some (balance e1)
          \<and> account_id e2 = ''a2''
          \<and> select_current_balance
               (snd (snd (handleTransfer transfer_ok fmt ''u1'' ''2026-01-20'' ?f accs1 db1)))
               ''a2'' = Some (balance e2))
   \<and> (\<exists>e. account_balance_history
              (snd (snd (snd (handleBalanceUpdate None None ''u1'' ''2026-01-20'' (Fin 1234) []
                 acct_checking [] db1))))
              = account_balance_history db1 @ [e]
          \<and> account_id e = ''a1''
          \<and> select_current_balance
              (snd (snd (snd (handleBalanceUpdate None None ''u1'' ''2026-01-20'' (Fin 1234) []
                 acct_checking [] db1)))) ''a1'' = Some (balance e))"
    using ok pc n by (simp add: select_db1)
  have c: "select_current_balance
        (updateAccountBalance history_fails db1 ''a1'' ''u1'' (Fin 50) bank_account Add None) ''a1''
       = Some (Fin 950)
   \<and> account_balance_history
        (updateAccountBalance history_fails db1 ''a1'' ''u1'' (Fin 50) bank_account Add None)
       = account_balance_history db1"
    using hf [THEN conjunct2, THEN conjunct2, THEN conjunct2, THEN conjunct1]
    unfolding v by (simp add: select_db1)
  have d: "select_current_balance
        (snd (snd (handleTransfer transfer_to_fails fmt ''u1'' ''2026-01-20'' ?f accs1 db1))) ''a1''
       = Some (Fin 950)
   \<and> account_balance_history
        (snd (snd (handleTransfer transfer_to_fails fmt ''u1'' ''2026-01-20'' ?f accs1 db1)))
       = account_balance_history db1"
    using tf [THEN conjunct2, THEN conjunct2, THEN conjunct2, THEN conjunct2, THEN conjunct1] pc
    unfolding n1 by (simp add: select_db1)
  have e: "select_current_balance
        (snd (snd (handleTransfer transfer_history_fails fmt ''u1'' ''2026-01-20'' ?f accs1 db1)))
        ''a2'' = Some (Fin 550)
   \<and> account_balance_history
        (snd (snd (handleTransfer transfer_history_fails fmt ''u1'' ''2026-01-20'' ?f accs1 db1)))
       = account_balance_history db1"
    using hf [THEN conjunct2, THEN conjunct2, THEN conjunct2, THEN conjunct2, THEN conjunct2,
        THEN conjunct1] pc
    unfolding n1 n2 by (simp add: select_db1)
  have g: "select_current_balance
        (snd (snd (snd (handleBalanceUpdate None (Some ''timeout'') ''u1'' ''2026-01-20'' (Fin 1234) []
           acct_checking [] db1)))) ''a1'' = Some (Fin 1234)
   \<and> account_balance_history
        (snd (snd (snd (handleBalanceUpdate None (Some ''timeout'') ''u1'' ''2026-01-20'' (Fin 1234) []
           acct_checking [] db1)))) = account_balance_history db1"
    using ok [THEN conjunct2, THEN conjunct2, THEN conjunct2, THEN conjunct2, THEN conjunct2,
        THEN conjunct2] n
    unfolding n3 by (simp add: select_db1 n3)
  have h: "history_error history_fails = Some ''timeout''"
    "toErr transfer_to_fails = Some ''timeout''"
    "historyErr transfer_history_fails = Some ''timeout''"
    by simp_all
  show ?thesis
    using a b c d e g h by blast
qed

text \<open>
  As stated for every path that updates a balance, the claim fails: when the update of the
  destination of a transfer fails, the balance of the source has been updated and no
  history row has been appended.
\<close>

theorem balance_without_history_counterexample:
  "passes_checks (form1 ''a1'' ''a2'' (Fin 50)) accs1 acct_checking acct_savings
   \<and> select_current_balance db1 ''a1'' = Some (Fin 1000)
   \<and> select_current_balance
        (snd (snd (handleTransfer transfer_to_fails fmt ''u1'' ''2026-01-20''
           (form1 ''a1'' ''a2'' (Fin 50)) accs1 db1))) ''a1'' = Some (Fin 950)
   \<and> account_balance_history
        (snd (snd (handleTransfer transfer_to_fails fmt ''u1'' ''2026-01-20''
           (form1 ''a1'' ''a2'' (Fin 50)) accs1 db1))) = account_balance_history db1"
proof -
  let ?f = "form1 ''a1'' ''a2'' (Fin 50)"
  have pc: "passes_checks ?f accs1 acct_checking acct_savings"
    by (rule checks_12) simp_all
  have n1: "balance_column db1 (newFromBalance acct_checking (transferAmount ?f)) = Fin 950"
    by (simp add: newFromBalance_def example_sums example_columns del: js_sub.simps)
  have sf: "select_current_balance db1 (transferFromId ?f) = Some (Fin 1000)"
    by (simp add: select_db1)
  have w: "select_current_balance
        (snd (snd (handleTransfer transfer_to_fails fmt ''u1'' ''2026-01-20'' ?f accs1 db1)))
        (transferFromId ?f) = Some (Fin 950)
     \<and> account_balance_history
        (snd (snd (handleTransfer transfer_to_fails fmt ''u1'' ''2026-01-20'' ?f accs1 db1)))
       = account_balance_history db1"
    using transfer_destination_failure [OF pc transfer_to_fails_simps(1,2) sf,
        of fmt "''u1''" "''2026-01-20''"]
    unfolding n1 .
  show ?thesis
    using pc w by (simp add: select_db1)
qed

text \<open>
  One more path changes a balance and appends no history row, even when every call
  succeeds: an edit of the account through the account form, whose payload carries the
  balance field of the form. Here, the edit of the first example account with a balance
  of 1234.00 in the form.
\<close>

lemma account_edit_skips_history:
  "account_onSubmit None None ''u1'' ''2026-01-20'' ''a9'' (Some acct_checking) edit_data db1
     = (toast_success ''Account updated'',
        update_account None ''a1''
          \<lparr>acc_id = ''a1'', account_name = ''Checking'', account_type = bank_account,
           currency = ''PHP'', current_balance = Fin 1234, status = status_active\<rparr> db1)
   \<and> select_current_balance
        (snd (account_onSubmit None None ''u1'' ''2026-01-20'' ''a9'' (Some acct_checking)
           edit_data db1)) ''a1'' = Some (Fin 1234)
   \<and> account_balance_history
        (snd (account_onSubmit None None ''u1'' ''2026-01-20'' ''a9'' (Some acct_checking)
           edit_data db1)) = []"
  by (simp add: account_onSubmit_def edit_data_def Let_def update_account_def
      select_current_balance_def db1_def accs1_def acct_checking_def acct_savings_def
      acct_card_def acct_closed_def example_columns)

section \<open>A posting without its account\<close>

lemma select_insert_expense [simp]:
  "select_current_balance (insert_expense err row d) i = select_current_balance d i"
  by (simp add: select_current_balance_def insert_expense_def split: option.splits)

lemma select_delete_expense [simp]:
  "select_current_balance (delete_expense err i' d) i = select_current_balance d i"
  by (simp add: select_current_balance_def delete_expense_def split: option.splits)

lemma posting_skipped:
  assumes "fetch_error env \<noteq> None \<or> select_current_balance d i = None"
  shows "updateAccountBalance env d i u x ty op nte = d"
  using assms by (auto simp: updateAccountBalance_def)

text \<open>
  Claim C9. When the read of the account fails or does not give exactly one row, the
  posting returns the store as it was: no balance update and no history row. The creation
  and the deletion of an expense linked to that account still report success, and their
  only write is the insert or the delete of the expense itself.
\<close>

theorem posting_skipped_without_account:
  assumes "fetch_error env \<noteq> None \<or> select_current_balance d i = None"
  shows "updateAccountBalance env d i u x ty op nte = d
       \<and> (d_account_id dat = i \<longrightarrow>
            expense_onSubmit None env u new_id dat accs d
              = (toast_success ''Expense logged'',
                 insert_expense None
                   \<lparr>exp_id = new_id, exp_user_id = u, exp_amount = d_amount dat,
                    category = d_category dat, vendor = or_null (d_vendor dat),
                    exp_account_id = or_null (d_account_id dat)\<rparr> d))
       \<and> (deleteId \<noteq> [] \<and> find (\<lambda>e. exp_id e = deleteId) exps = Some ex
            \<and> exp_account_id ex = Some i \<longrightarrow>
            expense_handleDelete None env deleteId exps accs d
              = (Some (toast_success ''Expense deleted''),
                 filter (\<lambda>e. exp_id e \<noteq> deleteId) exps,
                 delete_expense None deleteId d))"
proof -
  have skip: "updateAccountBalance env d' i u' x' ty' op' nte' = d'"
    if "select_current_balance d' i = select_current_balance d i" for d' u' x' ty' op' nte'
    using assms that by (intro posting_skipped) auto
  have c1: "updateAccountBalance env d i u x ty op nte = d"
    by (rule posting_skipped [OF assms])
  have c2: "expense_onSubmit None env u new_id dat accs d
              = (toast_success ''Expense logged'',
                 insert_expense None
                   \<lparr>exp_id = new_id, exp_user_id = u, exp_amount = d_amount dat,
                    category = d_category dat, vendor = or_null (d_vendor dat),
                    exp_account_id = or_null (d_account_id dat)\<rparr> d)"
    if eq: "d_account_id dat = i"
  proof (cases "find (\<lambda>a. acc_id a = d_account_id dat) accs")
    case None
    then show ?thesis by (simp add: expense_onSubmit_def Let_def)
  next
    case (Some acct)
    then have "acc_id acct = i" using eq by (auto dest: find_acc_id)
    then show ?thesis
      using Some by (simp add: expense_onSubmit_def Let_def skip)
  qed
  have c3: "expense_handleDelete None env deleteId exps accs d
              = (Some (toast_success ''Expense deleted''),
                 filter (\<lambda>e. exp_id e \<noteq> deleteId) exps,
                 delete_expense None deleteId d)"
    if ne: "deleteId \<noteq> []" and f: "find (\<lambda>e. exp_id e = deleteId) exps = Some ex"
      and l: "exp_account_id ex = Some i"
  proof (cases "find (\<lambda>a. acc_id a = i) accs")
    case None
    then show ?thesis using ne f l by (simp add: expense_handleDelete_def Let_def)
  next
    case (Some acct)
    then have "acc_id acct = i" by (auto dest: find_acc_id)
    then show ?thesis
      using Some ne f l by (simp add: expense_handleDelete_def Let_def skip)
  qed
  show ?thesis using c1 c2 c3 by blast
qed

theorem posting_skipped_without_account_witness:
  "fetch_error fetch_fails = Some ''timeout''
   \<and> updateAccountBalance fetch_fails db1 ''a1'' ''u1'' (Fin 1500) bank_account Add None = db1
   \<and> d_account_id expense1 = ''a1''
   \<and> fst (expense_onSubmit None fetch_fails ''u1'' ''e1'' expense1 accs1 db1)
       = toast_success ''Expense logged''
   \<and> accounts (snd (expense_onSubmit None fetch_fails ''u1'' ''e1'' expense1 accs1 db1))
       = accounts db1
   \<and> account_balance_history (snd (expense_onSubmit None fetch_fails ''u1'' ''e1'' expense1 accs1 db1))
       = account_balance_history db1"
proof -
  have h: "fetch_error fetch_fails \<noteq> None \<or> select_current_balance db1 ''a1'' = None"
    by (simp add: fetch_fails_def)
  have e: "d_account_id expense1 = ''a1''" by (simp add: expense1_def)
  show ?thesis
    using posting_skipped_without_account [OF h, of "''u1''" "Fin 1500" bank_account Add None
        expense1 "''e1''" accs1] e
    by (simp add: insert_expense_def fetch_fails_def)
qed

end
